theory Spec2Isabelle
  imports Main "HOL-Library.Sublist"
begin

text \<open>
  The OpenClaw MCP server answers JSON-RPC 2.0 calls over HTTP and turns three tools,
  \<open>ask\<close>, \<open>memory_search\<close> and \<open>sessions_status\<close>, into runs of the \<open>openclaw\<close> command-line
  agent or a search in the file \<open>MEMORY.md\<close>. The repository holds it twice: with a
  hand-written transport (src/unnamed/part_000) and on the SDK's transport
  (src/server-mcp.js). \<open>sendToOpenClaw\<close>, \<open>searchMemory\<close> and \<open>listSessions\<close> are the same
  in both and modelled once; \<open>authenticate\<close> and the handling of a tool call are modelled
  for each.
\<close>

section \<open>JavaScript strings\<close>

text \<open>
  A JavaScript string is a sequence of code units. It is modelled as a HOL \<open>string\<close>, one
  \<open>char\<close> per code unit, which covers the code units below 256 (ASCII and Latin-1). All
  text the server itself produces lies in that range; the accented letters of its messages
  are written \<open>CHR 0x..\<close>.
\<close>

definition LF :: char where
  "LF = CHR 0x0A"

definition DQ :: char where
  "DQ = CHR 0x22"

definition SQ :: char where
  "SQ = CHR 0x27"

definition BSL :: char where
  "BSL = CHR 0x5C"

text \<open>\<open>String.prototype.toLowerCase\<close> on code units below 256: A-Z and the Latin-1 capitals
  (0xC0-0xDE without the multiplication sign 0xD7) move up by 32.\<close>

definition lower_unit :: "char \<Rightarrow> char" where
  "lower_unit c =
     (let n = (of_char c :: nat)
      in if (65 \<le> n \<and> n \<le> 90) \<or> (192 \<le> n \<and> n \<le> 222 \<and> n \<noteq> 215)
         then char_of (n + 32) else c)"

definition toLowerCase :: "string \<Rightarrow> string" where
  "toLowerCase s = map lower_unit s"

text \<open>\<open>s.startsWith(p)\<close> for a string \<open>p\<close>.\<close>

definition startsWith :: "string \<Rightarrow> string \<Rightarrow> bool" where
  "startsWith s p = prefix p s"

text \<open>\<open>s.substring(n)\<close> with one argument: the code units from index \<open>n\<close> on.\<close>

definition substring :: "string \<Rightarrow> nat \<Rightarrow> string" where
  "substring s n = drop n s"

text \<open>\<open>s.includes(t)\<close>: \<open>t\<close> occurs in \<open>s\<close> at some index.\<close>

fun includes_str :: "string \<Rightarrow> string \<Rightarrow> bool" where
  "includes_str [] t = (t = [])"
| "includes_str (c # cs) t = (prefix t (c # cs) \<or> includes_str cs t)"

text \<open>\<open>s.split("\n")\<close>: the pieces between line feeds; never an empty array.\<close>

fun split_on :: "char \<Rightarrow> string \<Rightarrow> string list" where
  "split_on d [] = [[]]"
| "split_on d (c # cs) =
     (if c = d then [] # split_on d cs
      else (case split_on d cs of
              [] \<Rightarrow> [[c]]
            | l # ls \<Rightarrow> (c # l) # ls))"

text \<open>\<open>xs.join(sep)\<close> on an array of strings.\<close>

fun join :: "string \<Rightarrow> string list \<Rightarrow> string" where
  "join sep [] = []"
| "join sep [x] = x"
| "join sep (x # y # ys) = x @ sep @ join sep (y # ys)"

text \<open>White space and line terminators below 256, as \<open>trim\<close> and the regular expression
  class \<open>\s\<close> know them: TAB, LF, VT, FF, CR, SP, NBSP.\<close>

definition is_space :: "char \<Rightarrow> bool" where
  "is_space c = ((of_char c :: nat) \<in> {9, 10, 11, 12, 13, 32, 160})"

definition trim :: "string \<Rightarrow> string" where
  "trim s = rev (dropWhile is_space (rev (dropWhile is_space s)))"

text \<open>\<open>s.replace(/\s+/g, '-')\<close>: every maximal run of white space becomes one hyphen.\<close>

function replace_spaces :: "string \<Rightarrow> string" where
  "replace_spaces [] = []"
| "replace_spaces (c # cs) =
     (if is_space c then CHR ''-'' # replace_spaces (dropWhile is_space cs)
      else c # replace_spaces cs)"
  by pat_completeness auto
termination
  by (relation "measure length") (auto simp: less_Suc_eq_le length_dropWhile_le)

text \<open>The decimal numeral of a natural number and of an integer, as \<open>toString\<close> and a
  template literal print them.\<close>

fun nat_to_string :: "nat \<Rightarrow> string" where
  "nat_to_string n =
     (if n < 10 then [char_of (48 + n)]
      else nat_to_string (n div 10) @ [char_of (48 + n mod 10)])"

declare nat_to_string.simps [simp del]

definition int_to_string :: "int \<Rightarrow> string" where
  "int_to_string i =
     (if i < 0 then CHR ''-'' # nat_to_string (nat (- i)) else nat_to_string (nat i))"

section \<open>JavaScript values\<close>

text \<open>
  The values the server handles come out of \<open>JSON.parse\<close> or are absent, so a value is
  a JSON value or \<open>undefined\<close>. A number is held as the text \<open>String(n)\<close> gives it
  (zero is \<open>''0''\<close>), which is all the server ever asks of a number. An object is the list
  of its own members, each name once, in insertion order.
\<close>

datatype json =
    JUndefined
  | JNull
  | JBool bool
  | JNum string
  | JStr string
  | JArr "json list"
  | JObj "(string \<times> json) list"

text \<open>Truthiness, as \<open>!v\<close> and \<open>v || w\<close> test it.\<close>

fun truthy :: "json \<Rightarrow> bool" where
  "truthy JUndefined = False"
| "truthy JNull = False"
| "truthy (JBool b) = b"
| "truthy (JNum t) = (t \<noteq> ''0'')"
| "truthy (JStr s) = (s \<noteq> [])"
| "truthy (JArr xs) = True"
| "truthy (JObj kvs) = True"

definition js_or :: "json \<Rightarrow> json \<Rightarrow> json" where
  "js_or v w = (if truthy v then v else w)"

text \<open>
  Member access \<open>v.k\<close> and destructuring of \<open>k\<close>, for the member names the server reads
  (\<open>method\<close>, \<open>params\<close>, \<open>id\<close>, \<open>jsonrpc\<close>, \<open>name\<close>, \<open>arguments\<close>, \<open>message\<close>,
  \<open>query\<close>, \<open>protocolVersion\<close>, \<open>clientInfo\<close>): none of them is on a built-in prototype,
  so an object answers with its own member and every other value with \<open>undefined\<close>. On
  \<open>undefined\<close> and \<open>null\<close> JavaScript throws a TypeError instead: wherever the source reads
  a member of a value that can be one of the two, the function below tests \<open>nullish\<close> first
  and rejects with the message of that error. Optional chaining \<open>v?.k\<close> is \<open>js_get\<close> as it
  stands.
\<close>

fun js_get :: "json \<Rightarrow> string \<Rightarrow> json" where
  "js_get (JObj kvs) k = (case map_of kvs k of Some v \<Rightarrow> v | None \<Rightarrow> JUndefined)"
| "js_get v k = JUndefined"

fun nullish :: "json \<Rightarrow> bool" where
  "nullish JUndefined = True"
| "nullish JNull = True"
| "nullish v = False"

definition cannot_read :: "json \<Rightarrow> string \<Rightarrow> string" where
  "cannot_read v k =
     ''Cannot read properties of '' @ (if v = JNull then ''null'' else ''undefined'')
       @ '' (reading '' @ [SQ] @ k @ [SQ] @ '')''"

definition cannot_destructure :: "json \<Rightarrow> string \<Rightarrow> string \<Rightarrow> string" where
  "cannot_destructure v k source =
     ''Cannot destructure property '' @ [SQ] @ k @ [SQ] @ '' of '' @ [SQ] @ source @ [SQ]
       @ '' as it is '' @ (if v = JNull then ''null.'' else ''undefined.'')"

text \<open>
  \<open>ToString\<close>, which a template literal applies to each \<open>${...}\<close>. An array joins its
  elements with commas, \<open>undefined\<close> and \<open>null\<close> elements printing as nothing. A parsed
  object prints as \<open>[object Object]\<close> through \<open>Object.prototype.toString\<close>, unless it has
  a member of its own called \<open>toString\<close>: that member is a JSON value, not a function, the
  inherited \<open>valueOf\<close> returns the object itself, and the conversion throws a TypeError
  (\<open>None\<close>).
\<close>

fun ToString :: "json \<Rightarrow> string option" where
  "ToString JUndefined = Some ''undefined''"
| "ToString JNull = Some ''null''"
| "ToString (JBool b) = Some (if b then ''true'' else ''false'')"
| "ToString (JNum t) = Some t"
| "ToString (JStr s) = Some s"
| "ToString (JArr xs) =
     map_option (join '','')
       (those (map (\<lambda>x. if x = JUndefined \<or> x = JNull then Some [] else ToString x) xs))"
| "ToString (JObj kvs) =
     (if ''toString'' \<in> fst ` set kvs then None else Some ''[object Object]'')"

definition cannot_convert :: string where
  "cannot_convert = ''Cannot convert object to primitive value''"

text \<open>
  \<open>console.log(first, arg)\<close> with a string \<open>first\<close> and one more argument formats \<open>first\<close>
  as \<open>util.format\<close> of Node 18 and later does (the installer asks for that version). It
  scans for a percent sign followed by another character; \<open>%%\<close> and a percent sign before
  a character that is no placeholder are passed over, both characters at once; the first of
  \<open>%s %j %d %O %o %i %f %c\<close> takes the argument, and the scan never looks at the last
  character alone. \<open>%d\<close> applies \<open>Number\<close> to the argument, \<open>%i\<close> and \<open>%f\<close> apply
  \<open>parseInt\<close> and \<open>parseFloat\<close>; all three convert a parsed object or array to a primitive
  and throw exactly where \<open>ToString\<close> does. The other placeholders, and an argument left
  over, are printed by \<open>inspect\<close> or \<open>JSON.stringify\<close>, which read the members themselves.
  With \<open>first\<close> alone nothing is formatted.
\<close>

fun first_placeholder :: "string \<Rightarrow> char option" where
  "first_placeholder [] = None"
| "first_placeholder [c] = None"
| "first_placeholder (c # d # cs) =
     (if c = CHR ''%'' then
        (if d \<in> set ''sjdOoifc'' then Some d else first_placeholder cs)
      else first_placeholder (d # cs))"

definition log_throws :: "string \<Rightarrow> json \<Rightarrow> bool" where
  "log_throws first arg =
     (case first_placeholder first of
        None \<Rightarrow> False
      | Some d \<Rightarrow> d \<in> set ''dif'' \<and> ToString arg = None)"

section \<open>Promises\<close>

text \<open>
  What becomes of a promise (and so of an \<open>async\<close> function): it is fulfilled with a value,
  rejected with an error, of which only the \<open>message\<close> is ever read, or it never settles.
\<close>

datatype 'a promise = Pending | Resolved 'a | Rejected string

text \<open>\<open>resolve\<close> and \<open>reject\<close> act on a pending promise only.\<close>

definition settle :: "'a promise \<Rightarrow> 'a promise \<Rightarrow> 'a promise" where
  "settle p q = (if p = Pending then q else p)"

section \<open>Configuration and environment\<close>

record config =
  botName :: string
  sessionLabel :: string
  apiKey :: string

text \<open>The events a child process emits, in the order the listeners see them. The exit
  code of \<open>close\<close> is \<open>null\<close> (\<open>None\<close>) when a signal ended the process.\<close>

datatype proc_event =
    StdoutData string
  | StderrData string
  | CloseEv "int option"
  | ErrorEv string

text \<open>The file at \<open>join(config.workspace, "MEMORY.md")\<close>: absent (\<open>existsSync\<close> is false),
  there but \<open>readFileSync\<close> throws the given message, or there with the given text.\<close>

datatype file_state = Absent | Unreadable string | Content string

text \<open>
  What one request finds outside the server: the memory file, what \<open>spawn\<close> does with a
  command and its arguments (it throws at once, \<open>Inl\<close>, or gives a process emitting the
  events, \<open>Inr\<close>), and the identifier \<open>randomUUID\<close> draws.
\<close>

record env =
  memory_file :: file_state
  spawn :: "string \<Rightarrow> string list \<Rightarrow> string + proc_event list"
  randomUUID :: string

type_synonym spawn_call = "string \<times> string list"

section \<open>The command-line agent\<close>

text \<open>The listeners of \<open>sendToOpenClaw\<close> and \<open>listSessions\<close>: both streams are
  collected, \<open>close\<close> settles the promise by the exit code, \<open>error\<close> rejects it.\<close>

record collector =
  stdout :: string
  stderr :: string
  settled :: "string promise"

definition code_text :: "int option \<Rightarrow> string" where
  "code_text code = (case code of None \<Rightarrow> ''null'' | Some n \<Rightarrow> int_to_string n)"

fun on_event :: "collector \<Rightarrow> proc_event \<Rightarrow> collector" where
  "on_event c (StdoutData d) = c\<lparr>stdout := stdout c @ d\<rparr>"
| "on_event c (StderrData d) = c\<lparr>stderr := stderr c @ d\<rparr>"
| "on_event c (CloseEv code) =
     (if code \<noteq> Some 0
      then c\<lparr>settled := settle (settled c)
             (Rejected (''OpenClaw exited with code '' @ code_text code @ '': '' @ stderr c))\<rparr>
      else c\<lparr>settled := settle (settled c) (Resolved (trim (stdout c)))\<rparr>)"
| "on_event c (ErrorEv m) =
     c\<lparr>settled := settle (settled c) (Rejected (''Failed to spawn openclaw: '' @ m))\<rparr>"

definition run_child :: "proc_event list \<Rightarrow> string promise" where
  "run_child evs = settled (foldl on_event \<lparr>stdout = [], stderr = [], settled = Pending\<rparr> evs)"

text \<open>The promise around one \<open>spawn('openclaw', argv)\<close>; an exception of \<open>spawn\<close> itself
  rejects it, being thrown inside the promise's executor.\<close>

definition openclaw :: "env \<Rightarrow> string list \<Rightarrow> string promise" where
  "openclaw e argv =
     (case spawn e ''openclaw'' argv of
        Inl err \<Rightarrow> Rejected err
      | Inr evs \<Rightarrow> run_child evs)"

text \<open>\<open>message.replace(/"/g, '\\"')\<close>.\<close>

definition escapedMessage :: "string \<Rightarrow> string" where
  "escapedMessage message = concat (map (\<lambda>c. if c = DQ then [BSL, DQ] else [c]) message)"

definition send_argv :: "config \<Rightarrow> string \<Rightarrow> nat \<Rightarrow> string list" where
  "send_argv cfg message timeout =
     [''sessions'', ''send'',
      ''--label'', sessionLabel cfg,
      ''--message'', escapedMessage message,
      ''--timeout'', nat_to_string timeout]"

text \<open>\<open>sendToOpenClaw(message, timeout)\<close>: the promise, and the \<open>spawn\<close> calls made. A
  message that is not a string has no \<open>replace\<close> method, which rejects the promise before
  anything is spawned.\<close>

definition sendToOpenClaw :: "config \<Rightarrow> env \<Rightarrow> json \<Rightarrow> nat \<Rightarrow> string promise \<times> spawn_call list" where
  "sendToOpenClaw cfg e message timeout =
     (case message of
        JStr m \<Rightarrow>
          (openclaw e (send_argv cfg m timeout), [(''openclaw'', send_argv cfg m timeout)])
      | _ \<Rightarrow> (Rejected ''message.replace is not a function'', []))"

definition list_argv :: "string list" where
  "list_argv = [''sessions'', ''list'', ''--limit'', ''10'']"

definition listSessions :: "env \<Rightarrow> string promise \<times> spawn_call list" where
  "listSessions e = (openclaw e list_argv, [(''openclaw'', list_argv)])"

section \<open>The memory file\<close>

definition not_found_text :: string where
  "not_found_text = ''MEMORY.md n'' @ [CHR 0xE3] @ ''o encontrado no workspace''"

definition no_results_text :: "string \<Rightarrow> string" where
  "no_results_text query =
     ''Nenhum resultado encontrado para '' @ [DQ] @ query @ [DQ] @ '' na mem'' @ [CHR 0xF3]
       @ ''ria.''"

definition results_text :: "string list \<Rightarrow> string" where
  "results_text matches =
     ''Encontrados '' @ nat_to_string (length matches) @ '' resultados:'' @ [LF, LF]
       @ join [LF] (take 10 matches)"

text \<open>
  \<open>searchMemory(query)\<close>: the text returned (\<open>Inr\<close>) or the message of the error thrown
  (\<open>Inl\<close>). The filter calls \<open>query.toLowerCase()\<close> on the first line already, and there
  always is a first line, so a query that is not a string throws.
\<close>

definition searchMemory :: "env \<Rightarrow> json \<Rightarrow> string + string" where
  "searchMemory e query =
     (case memory_file e of
        Absent \<Rightarrow> Inr not_found_text
      | Unreadable err \<Rightarrow> Inl err
      | Content memoryContent \<Rightarrow>
          (case query of
             JStr q \<Rightarrow>
               (let lines = split_on LF memoryContent;
                    matches = filter (\<lambda>line. includes_str (toLowerCase line) (toLowerCase q)) lines
                in if length matches = 0 then Inr (no_results_text q)
                   else Inr (results_text matches))
           | _ \<Rightarrow> Inl ''query.toLowerCase is not a function''))"

section \<open>The hand-written transport (src/unnamed/part_000)\<close>

text \<open>
  The log lines leave no trace in a response; what they can do is throw. A template literal
  over a value of the request throws where \<open>ToString\<close> does. \<open>console.log\<close> with a second
  argument throws where \<open>log_throws\<close> says: that is the line before the \<open>try\<close> of
  \<open>tools/call\<close>, whose format string ends in the tool name. The two \<open>console.error\<close> lines
  have a fixed first argument without a percent sign and an \<open>Error\<close> as the second.
\<close>

definition SERVER_INFO :: "config \<Rightarrow> json" where
  "SERVER_INFO cfg =
     JObj [(''name'', JStr (replace_spaces (toLowerCase (botName cfg)) @ ''-mcp-server'')),
           (''version'', JStr ''1.0.0'')]"

definition SERVER_CAPABILITIES :: json where
  "SERVER_CAPABILITIES = JObj [(''tools'', JObj [])]"

definition ask_schema :: "config \<Rightarrow> json" where
  "ask_schema cfg =
     JObj [(''type'', JStr ''object''),
           (''properties'',
              JObj [(''message'',
                 JObj [(''type'', JStr ''string''),
                       (''description'',
                          JStr (''A mensagem ou pergunta para enviar a '' @ botName cfg))])]),
           (''required'', JArr [JStr ''message''])]"

definition memory_search_schema :: json where
  "memory_search_schema =
     JObj [(''type'', JStr ''object''),
           (''properties'',
              JObj [(''query'',
                 JObj [(''type'', JStr ''string''),
                       (''description'',
                          JStr (''Termo ou frase para buscar na mem'' @ [CHR 0xF3] @ ''ria''))])]),
           (''required'', JArr [JStr ''query''])]"

definition sessions_status_schema :: json where
  "sessions_status_schema = JObj [(''type'', JStr ''object''), (''properties'', JObj [])]"

definition TOOLS :: "config \<Rightarrow> json list" where
  "TOOLS cfg =
     [JObj [(''name'', JStr ''ask''),
            (''description'',
               JStr (''Enviar uma pergunta ou mensagem para '' @ botName cfg
                 @ ''. Use quando precisar consultar informa'' @ [CHR 0xE7, CHR 0xF5]
                 @ ''es, contexto, ou delegar tarefas espec'' @ [CHR 0xED] @ ''ficas.'')),
            (''inputSchema'', ask_schema cfg)],
      JObj [(''name'', JStr ''memory_search''),
            (''description'',
               JStr (''Buscar na mem'' @ [CHR 0xF3] @ ''ria de longo prazo de '' @ botName cfg
                 @ '' (MEMORY.md). '' @ [CHR 0xDA] @ ''til para encontrar decis'' @ [CHR 0xF5]
                 @ ''es passadas, contexto de projetos, etc.'')),
            (''inputSchema'', memory_search_schema)],
      JObj [(''name'', JStr ''sessions_status''),
            (''description'',
               JStr (''Verificar status das sess'' @ [CHR 0xF5] @ ''es do OpenClaw'')),
            (''inputSchema'', sessions_status_schema)]]"

text \<open>An HTTP response: the status and the value handed to \<open>res.json\<close>, or no body.\<close>

datatype http = Http nat "json option"

record request =
  authorization :: "string option"
  body :: json

text \<open>\<open>authenticate(req, res, next)\<close> on \<open>req.headers.authorization\<close>: the response it
  sends, or \<open>None\<close> when it calls \<open>next()\<close>.\<close>

definition authenticate :: "config \<Rightarrow> string option \<Rightarrow> http option" where
  "authenticate cfg authHeader =
     (case authHeader of
        None \<Rightarrow>
          Some (Http 401 (Some (JObj
            [(''jsonrpc'', JStr ''2.0''),
             (''error'', JObj [(''code'', JNum ''-32600''),
                               (''message'', JStr ''Missing or invalid authorization header'')]),
             (''id'', JNull)])))
      | Some h \<Rightarrow>
          if h = [] \<or> \<not> startsWith h ''Bearer '' then
            Some (Http 401 (Some (JObj
              [(''jsonrpc'', JStr ''2.0''),
               (''error'', JObj [(''code'', JNum ''-32600''),
                                 (''message'', JStr ''Missing or invalid authorization header'')]),
               (''id'', JNull)])))
          else if substring h 7 \<noteq> apiKey cfg then
            Some (Http 403 (Some (JObj
              [(''jsonrpc'', JStr ''2.0''),
               (''error'', JObj [(''code'', JNum ''-32600''), (''message'', JStr ''Invalid API key'')]),
               (''id'', JNull)])))
          else None)"

text \<open>The session table, written by \<open>initialize\<close> and read by nothing.\<close>

record session =
  initialized :: bool
  protocolVersion :: json
  clientInfo :: json

type_synonym sessions = "string \<rightharpoonup> session"

definition missing_message :: string where
  "missing_message = ''Missing '' @ [SQ] @ ''message'' @ [SQ] @ '' argument''"

definition missing_query :: string where
  "missing_query = ''Missing '' @ [SQ] @ ''query'' @ [SQ] @ '' argument''"

text \<open>
  The \<open>switch (toolName)\<close> inside the \<open>try\<close> of \<open>handleRequest\<close>: the awaited \<open>result\<close>
  (\<open>Resolved\<close>), the error thrown (\<open>Rejected\<close>), or an await that never ends, with the
  \<open>spawn\<close> calls made. The log line before \<open>sendToOpenClaw\<close> prints the message through a
  template literal. \<open>toolArgs\<close> is \<open>params.arguments || {}\<close>, so never \<open>undefined\<close> or
  \<open>null\<close>, and reading its members does not throw.
\<close>

definition call_tool :: "config \<Rightarrow> env \<Rightarrow> json \<Rightarrow> json \<Rightarrow> string promise \<times> spawn_call list" where
  "call_tool cfg e toolName toolArgs =
     (if toolName = JStr ''ask'' then
        (if \<not> truthy (js_get toolArgs ''message'') then (Rejected missing_message, [])
         else (case ToString (js_get toolArgs ''message'') of
                 None \<Rightarrow> (Rejected cannot_convert, [])
               | Some logged \<Rightarrow> sendToOpenClaw cfg e (js_get toolArgs ''message'') 120))
      else if toolName = JStr ''memory_search'' then
        (if \<not> truthy (js_get toolArgs ''query'') then (Rejected missing_query, [])
         else (case searchMemory e (js_get toolArgs ''query'') of
                 Inl err \<Rightarrow> (Rejected err, [])
               | Inr r \<Rightarrow> (Resolved r, [])))
      else if toolName = JStr ''sessions_status'' then listSessions e
      else (case ToString toolName of
              None \<Rightarrow> (Rejected cannot_convert, [])
            | Some n \<Rightarrow> (Rejected (''Unknown tool: '' @ n), [])))"

text \<open>
  \<open>handleRequest(method, params, id)\<close>, the request's \<open>id\<close> being \<open>rid\<close> here: the promise
  of the envelope (\<open>JNull\<close> for the notification), the session table afterwards and the
  \<open>spawn\<close> calls made. The two log lines that stand outside the \<open>try\<close> print \<open>method\<close>
  and \<open>toolName\<close> through template literals, the second with \<open>toolArgs\<close> as a further
  argument; \<open>initialize\<close> and \<open>tools/call\<close> read members of \<open>params\<close>, also outside the
  \<open>try\<close>. A TypeError at any of these rejects the promise, before a session is stored. The
  text \<open>logged\<close> for \<open>method\<close> is what the last branch prints again.
\<close>

definition handleRequest ::
  "config \<Rightarrow> env \<Rightarrow> sessions \<Rightarrow> json \<Rightarrow> json \<Rightarrow> json \<Rightarrow> json promise \<times> sessions \<times> spawn_call list" where
  "handleRequest cfg e ss method params rid =
     (case ToString method of
        None \<Rightarrow> (Rejected cannot_convert, ss, [])
      | Some logged \<Rightarrow>
     (if method = JStr ''initialize'' then
        (if nullish params then (Rejected (cannot_read params ''protocolVersion''), ss, [])
         else
           (Resolved (JObj
              [(''jsonrpc'', JStr ''2.0''),
               (''id'', rid),
               (''result'', JObj
                  [(''protocolVersion'', JStr ''2024-11-05''),
                   (''capabilities'', SERVER_CAPABILITIES),
                   (''serverInfo'', SERVER_INFO cfg),
                   (''sessionId'', JStr (randomUUID e))])]),
            ss(randomUUID e \<mapsto>
               \<lparr>initialized = True,
                protocolVersion = js_get params ''protocolVersion'',
                clientInfo = js_get params ''clientInfo''\<rparr>),
            []))
      else if method = JStr ''initialized'' then (Resolved JNull, ss, [])
      else if method = JStr ''tools/list'' then
        (Resolved (JObj
           [(''jsonrpc'', JStr ''2.0''),
            (''id'', rid),
            (''result'', JObj [(''tools'', JArr (TOOLS cfg))])]),
         ss, [])
      else if method = JStr ''tools/call'' then
        (if nullish params then (Rejected (cannot_read params ''name''), ss, [])
         else
         let toolName = js_get params ''name'';
             toolArgs = js_or (js_get params ''arguments'') (JObj [])
         in case ToString toolName of
              None \<Rightarrow> (Rejected cannot_convert, ss, [])
            | Some named \<Rightarrow>
              if log_throws (''[MCP] Calling tool: '' @ named) toolArgs
              then (Rejected cannot_convert, ss, [])
              else
              (case call_tool cfg e toolName toolArgs of
                 (Pending, calls) \<Rightarrow> (Pending, ss, calls)
               | (Resolved result, calls) \<Rightarrow>
                   (Resolved (JObj
                      [(''jsonrpc'', JStr ''2.0''),
                       (''id'', rid),
                       (''result'', JObj
                          [(''content'', JArr
                             [JObj [(''type'', JStr ''text''),
                                    (''text'', JStr (if result = [] then ''Success'' else result))]])])]),
                    ss, calls)
               | (Rejected message, calls) \<Rightarrow>
                   (Resolved (JObj
                      [(''jsonrpc'', JStr ''2.0''),
                       (''id'', rid),
                       (''result'', JObj
                          [(''content'', JArr
                             [JObj [(''type'', JStr ''text''),
                                    (''text'', JStr (''Error: '' @ message))]]),
                           (''isError'', JBool True)])]),
                    ss, calls)))
      else if method = JStr ''ping'' then
        (Resolved (JObj [(''jsonrpc'', JStr ''2.0''), (''id'', rid), (''result'', JObj [])]), ss, [])
      else
        (Resolved (JObj
           [(''jsonrpc'', JStr ''2.0''),
            (''id'', rid),
            (''error'', JObj
               [(''code'', JNum ''-32601''),
                (''message'', JStr (''Method not found: '' @ logged))])]),
         ss, [])))"

text \<open>
  The handler of \<open>app.post("/mcp", authenticate, ...)\<close> on \<open>req.body\<close>. Destructuring
  throws when there is no body. The next statement logs \<open>method\<close> and \<open>id\<close> through a
  template literal, outside any \<open>try\<close>: a TypeError there rejects the handler's promise, and
  this code writes no response.
\<close>

definition post_handler :: "config \<Rightarrow> env \<Rightarrow> sessions \<Rightarrow> json \<Rightarrow> http promise \<times> sessions \<times> spawn_call list" where
  "post_handler cfg e ss reqBody =
     (if reqBody = JUndefined \<or> reqBody = JNull then
        (Rejected (cannot_destructure reqBody ''method'' ''req.body''), ss, [])
      else
        (let method = js_get reqBody ''method'';
             params = js_get reqBody ''params'';
             rid = js_get reqBody ''id'';
             jsonrpc = js_get reqBody ''jsonrpc''
         in if ToString method = None \<or> ToString rid = None then (Rejected cannot_convert, ss, [])
            else if jsonrpc \<noteq> JStr ''2.0'' then
              (Resolved (Http 400 (Some (JObj
                 [(''jsonrpc'', JStr ''2.0''),
                  (''error'', JObj [(''code'', JNum ''-32600''),
                                    (''message'', JStr ''Invalid JSON-RPC version'')]),
                  (''id'', JNull)]))),
               ss, [])
            else
              (case handleRequest cfg e ss method (js_or params (JObj [])) rid of
                 (Pending, ss', calls) \<Rightarrow> (Pending, ss', calls)
               | (Resolved response, ss', calls) \<Rightarrow>
                   (Resolved (if response = JNull then Http 202 None else Http 200 (Some response)),
                    ss', calls)
               | (Rejected message, ss', calls) \<Rightarrow>
                   (Resolved (Http 500 (Some (JObj
                      [(''jsonrpc'', JStr ''2.0''),
                       (''error'', JObj [(''code'', JNum ''-32603''), (''message'', JStr message)]),
                       (''id'', rid)]))),
                    ss', calls))))"

text \<open>\<open>POST /mcp\<close>: the middleware, then the handler.\<close>

definition post_mcp :: "config \<Rightarrow> env \<Rightarrow> sessions \<Rightarrow> request \<Rightarrow> http promise \<times> sessions \<times> spawn_call list" where
  "post_mcp cfg e ss req =
     (case authenticate cfg (authorization req) of
        Some denied \<Rightarrow> (Resolved denied, ss, [])
      | None \<Rightarrow> post_handler cfg e ss (body req))"

section \<open>The SDK transport (src/server-mcp.js)\<close>

text \<open>Its \<open>authenticate\<close> differs in the bodies only.\<close>

definition authenticate_sdk :: "config \<Rightarrow> string option \<Rightarrow> http option" where
  "authenticate_sdk cfg authHeader =
     (case authHeader of
        None \<Rightarrow>
          Some (Http 401 (Some (JObj [(''error'', JStr ''Missing or invalid authorization header'')])))
      | Some h \<Rightarrow>
          if h = [] \<or> \<not> startsWith h ''Bearer '' then
            Some (Http 401 (Some (JObj [(''error'', JStr ''Missing or invalid authorization header'')])))
          else if substring h 7 \<noteq> apiKey cfg then
            Some (Http 403 (Some (JObj [(''error'', JStr ''Invalid API key'')])))
          else None)"

text \<open>The handler registered for \<open>ListToolsRequestSchema\<close>.\<close>

definition list_tools_sdk :: "config \<Rightarrow> json" where
  "list_tools_sdk cfg = JObj [(''tools'', JArr (TOOLS cfg))]"

text \<open>
  The handler registered for \<open>CallToolRequestSchema\<close>, on \<open>request.params\<close>. It destructures
  the parameters before its \<open>try\<close>, which throws when there are none; everything else is
  inside the \<open>try\<close>, there is no log line, and \<open>args?.message\<close> reads \<open>undefined\<close> from
  absent arguments.
\<close>

definition call_tool_sdk :: "config \<Rightarrow> env \<Rightarrow> json \<Rightarrow> json \<Rightarrow> string promise \<times> spawn_call list" where
  "call_tool_sdk cfg e name args =
     (if name = JStr ''ask'' then
        (if \<not> truthy (js_get args ''message'') then (Rejected missing_message, [])
         else sendToOpenClaw cfg e (js_get args ''message'') 120)
      else if name = JStr ''memory_search'' then
        (if \<not> truthy (js_get args ''query'') then (Rejected missing_query, [])
         else (case searchMemory e (js_get args ''query'') of
                 Inl err \<Rightarrow> (Rejected err, [])
               | Inr r \<Rightarrow> (Resolved r, [])))
      else if name = JStr ''sessions_status'' then listSessions e
      else (case ToString name of
              None \<Rightarrow> (Rejected cannot_convert, [])
            | Some n \<Rightarrow> (Rejected (''Unknown tool: '' @ n), [])))"

definition CallToolRequest_sdk :: "config \<Rightarrow> env \<Rightarrow> json \<Rightarrow> json promise \<times> spawn_call list" where
  "CallToolRequest_sdk cfg e params =
     (if nullish params then (Rejected (cannot_destructure params ''name'' ''request.params''), [])
      else
     (case call_tool_sdk cfg e (js_get params ''name'') (js_get params ''arguments'') of
        (Pending, calls) \<Rightarrow> (Pending, calls)
      | (Resolved result, calls) \<Rightarrow>
          (Resolved (JObj
             [(''content'', JArr
                [JObj [(''type'', JStr ''text''),
                       (''text'', JStr (if result = [] then ''Success'' else result))]])]),
           calls)
      | (Rejected message, calls) \<Rightarrow>
          (Resolved (JObj
             [(''content'', JArr
                [JObj [(''type'', JStr ''text''), (''text'', JStr (''Error: '' @ message))]]),
              (''isError'', JBool True)]),
           calls)))"

section \<open>Notions used in the statements\<close>

text \<open>The envelope of a tool call that went well: a JSON-RPC result with one text block and
  no \<open>isError\<close> member.\<close>

definition text_result :: "json \<Rightarrow> string \<Rightarrow> json" where
  "text_result rid t =
     JObj [(''jsonrpc'', JStr ''2.0''),
           (''id'', rid),
           (''result'', JObj
              [(''content'', JArr [JObj [(''type'', JStr ''text''), (''text'', JStr t)]])])]"

text \<open>The envelope of a tool call that threw: still a JSON-RPC result, its one text block
  reading \<open>Error: ...\<close>, with \<open>isError\<close> set.\<close>

definition error_result :: "json \<Rightarrow> string \<Rightarrow> json" where
  "error_result rid message =
     JObj [(''jsonrpc'', JStr ''2.0''),
           (''id'', rid),
           (''result'', JObj
              [(''content'', JArr
                 [JObj [(''type'', JStr ''text''), (''text'', JStr (''Error: '' @ message))]]),
               (''isError'', JBool True)])]"

text \<open>The same two results as the SDK's handler returns them, without the envelope.\<close>

definition text_content :: "string \<Rightarrow> json" where
  "text_content t =
     JObj [(''content'', JArr [JObj [(''type'', JStr ''text''), (''text'', JStr t)]])]"

definition error_content :: "string \<Rightarrow> json" where
  "error_content message =
     JObj [(''content'', JArr
             [JObj [(''type'', JStr ''text''), (''text'', JStr (''Error: '' @ message))]]),
           (''isError'', JBool True)]"

text \<open>A JSON-RPC error envelope, the members in the order \<open>handleRequest\<close> writes them.\<close>

definition rpc_error :: "json \<Rightarrow> string \<Rightarrow> string \<Rightarrow> json" where
  "rpc_error rid code message =
     JObj [(''jsonrpc'', JStr ''2.0''),
           (''id'', rid),
           (''error'', JObj [(''code'', JNum code), (''message'', JStr message)])]"

text \<open>Output events of a child process, and what its two streams have carried.\<close>

fun is_data :: "proc_event \<Rightarrow> bool" where
  "is_data (StdoutData d) = True"
| "is_data (StderrData d) = True"
| "is_data ev = False"

fun stdout_of :: "proc_event list \<Rightarrow> string" where
  "stdout_of [] = []"
| "stdout_of (StdoutData d # evs) = d @ stdout_of evs"
| "stdout_of (ev # evs) = stdout_of evs"

fun stderr_of :: "proc_event list \<Rightarrow> string" where
  "stderr_of [] = []"
| "stderr_of (StderrData d # evs) = d @ stderr_of evs"
| "stderr_of (ev # evs) = stderr_of evs"



text \<open>Escaping double quotes, one code unit after the other.\<close>

fun escape_quotes :: "string \<Rightarrow> string" where
  "escape_quotes [] = []"
| "escape_quotes (c # cs) = (if c = DQ then BSL # DQ # escape_quotes cs else c # escape_quotes cs)"

text \<open>The method names the dispatcher knows, and the tool names.\<close>

definition known_methods :: "json set" where
  "known_methods =
     {JStr ''initialize'', JStr ''initialized'', JStr ''tools/list'', JStr ''tools/call'',
      JStr ''ping''}"

definition known_tools :: "json set" where
  "known_tools = {JStr ''ask'', JStr ''memory_search'', JStr ''sessions_status''}"

text \<open>The parameters of a \<open>tools/call\<close> and a request body.\<close>

definition call_params :: "string \<Rightarrow> json \<Rightarrow> json" where
  "call_params tool args = JObj [(''name'', JStr tool), (''arguments'', args)]"

definition rpc_body :: "json \<Rightarrow> string \<Rightarrow> json \<Rightarrow> json" where
  "rpc_body rid method params =
     JObj [(''jsonrpc'', JStr ''2.0''), (''id'', rid), (''method'', JStr method),
           (''params'', params)]"

subsection \<open>Sample inputs\<close>

definition sample_config :: config where
  "sample_config = \<lparr>botName = ''My Bot'', sessionLabel = ''main'', apiKey = ''s3cret''\<rparr>"

definition sample_memory :: string where
  "sample_memory = ''# Notes'' @ [LF] @ ''Deploy on Friday'' @ [LF] @ ''never DEPLOY at night''
     @ [LF] @ ''buy milk''"

text \<open>An agent that answers \<open>pong\<close> and exits with 0, beside a readable memory file.\<close>

definition sample_env :: env where
  "sample_env =
     \<lparr>memory_file = Content sample_memory,
      spawn = (\<lambda>command argv. Inr [StdoutData ''pong'', StdoutData [LF], CloseEv (Some 0)]),
      randomUUID = ''0b7e6f52-0c1d-4e8a-9a51-2f4f3c6d7e80''\<rparr>"

text \<open>No memory file, and an agent that prints nothing but white space.\<close>

definition quiet_env :: env where
  "quiet_env =
     \<lparr>memory_file = Absent,
      spawn = (\<lambda>command argv. Inr [StdoutData [LF], CloseEv (Some 0)]),
      randomUUID = ''6a1f0c9e-5b7d-4c2a-8f3e-1d2c3b4a5f60''\<rparr>"

text \<open>An agent that complains and exits with 2.\<close>

definition failing_env :: env where
  "failing_env =
     \<lparr>memory_file = Absent,
      spawn = (\<lambda>command argv. Inr [StderrData ''no such '', StderrData ''session'', CloseEv (Some 2)]),
      randomUUID = ''6a1f0c9e-5b7d-4c2a-8f3e-1d2c3b4a5f61''\<rparr>"

text \<open>No agent installed: \<open>error\<close> is emitted, then \<open>close\<close> with the negative errno.\<close>

definition missing_env :: env where
  "missing_env =
     \<lparr>memory_file = Absent,
      spawn = (\<lambda>command argv. Inr [ErrorEv ''spawn openclaw ENOENT'', CloseEv (Some (- 2))]),
      randomUUID = ''6a1f0c9e-5b7d-4c2a-8f3e-1d2c3b4a5f62''\<rparr>"

section \<open>Supporting lemmas\<close>

lemma bearer_token:
  "startsWith (''Bearer '' @ t) ''Bearer '' \<and> substring (''Bearer '' @ t) 7 = t"
  by (simp add: startsWith_def substring_def)

lemma js_get_defined_obj: "js_get v k \<noteq> JUndefined \<Longrightarrow> \<exists>kvs. v = JObj kvs"
  by (cases v) simp_all

text \<open>\<open>(v || {}).k\<close> reads what \<open>v.k\<close> would: a falsy \<open>v\<close> has no members.\<close>

lemma js_get_or_empty: "js_get (js_or v (JObj [])) k = js_get v k"
  by (cases v) (simp_all add: js_or_def)

lemma member_not_nullish: "js_get v k \<noteq> JUndefined \<Longrightarrow> \<not> nullish v"
  by (cases v) simp_all

lemma or_empty_not_nullish: "\<not> nullish (js_or v (JObj []))"
  by (cases v) (simp_all add: js_or_def)

lemma body_is_object:
  "js_get reqBody k = JStr s \<Longrightarrow> reqBody \<noteq> JUndefined \<and> reqBody \<noteq> JNull"
  by (cases reqBody) simp_all

text \<open>Nothing reads the session table: neither the response nor the \<open>spawn\<close> calls of a
  request depend on it.\<close>

lemma handleRequest_sessions_unread:
  "fst (handleRequest cfg e ss' method params rid) = fst (handleRequest cfg e ss method params rid)
   \<and> snd (snd (handleRequest cfg e ss' method params rid))
       = snd (snd (handleRequest cfg e ss method params rid))"
  by (simp add: handleRequest_def Let_def split: option.splits prod.splits promise.splits)

lemma post_handler_sessions_unread:
  "fst (post_handler cfg e ss' reqBody) = fst (post_handler cfg e ss reqBody)
   \<and> snd (snd (post_handler cfg e ss' reqBody)) = snd (snd (post_handler cfg e ss reqBody))"
proof -
  let ?h = "\<lambda>s. handleRequest cfg e s (js_get reqBody ''method'')
              (js_or (js_get reqBody ''params'') (JObj [])) (js_get reqBody ''id'')"
  have "fst (?h ss') = fst (?h ss)" "snd (snd (?h ss')) = snd (snd (?h ss))"
    using handleRequest_sessions_unread by blast+
  then show ?thesis
    by (cases "?h ss"; cases "?h ss'")
       (auto simp: post_handler_def Let_def split: promise.splits)
qed

lemma unknown_tool_rejected:
  assumes "ToString name = Some n" and "name \<notin> known_tools"
  shows "call_tool cfg e name args = (Rejected (''Unknown tool: '' @ n), [])"
    and "call_tool_sdk cfg e name args = (Rejected (''Unknown tool: '' @ n), [])"
  using assms by (auto simp: call_tool_def call_tool_sdk_def known_tools_def)

text \<open>Once settled, a promise keeps its state whatever the process emits next; until
  then the listeners only collect the two streams.\<close>

lemma settled_stays:
  "settled c \<noteq> Pending \<Longrightarrow> settled (foldl on_event c evs) = settled c"
proof (induction evs arbitrary: c)
  case Nil
  then show ?case by simp
next
  case (Cons ev evs)
  have "settled (on_event c ev) = settled c"
    using Cons.prems by (cases ev) (simp_all add: settle_def)
  with Cons show ?case by simp
qed

lemma data_events_collected:
  "list_all is_data evs \<Longrightarrow>
     foldl on_event c evs
       = c\<lparr>stdout := stdout c @ stdout_of evs, stderr := stderr c @ stderr_of evs\<rparr>"
proof (induction evs arbitrary: c)
  case Nil
  then show ?case by simp
next
  case (Cons ev evs)
  then show ?case by (cases ev) simp_all
qed

lemma run_child_close:
  assumes "list_all is_data ds"
  shows "run_child (ds @ CloseEv code # rest)
           = (if code \<noteq> Some 0
              then Rejected (''OpenClaw exited with code '' @ code_text code @ '': '' @ stderr_of ds)
              else Resolved (trim (stdout_of ds)))"
proof -
  let ?c = "on_event (foldl on_event \<lparr>stdout = [], stderr = [], settled = Pending\<rparr> ds) (CloseEv code)"
  have "settled ?c = (if code \<noteq> Some 0
              then Rejected (''OpenClaw exited with code '' @ code_text code @ '': '' @ stderr_of ds)
              else Resolved (trim (stdout_of ds)))"
    by (simp add: data_events_collected [OF assms] settle_def)
  moreover from this have "settled ?c \<noteq> Pending" by simp
  ultimately show ?thesis
    by (simp add: run_child_def settled_stays)
qed

lemma run_child_error:
  assumes "list_all is_data ds"
  shows "run_child (ds @ ErrorEv reason # rest) = Rejected (''Failed to spawn openclaw: '' @ reason)"
proof -
  let ?c = "on_event (foldl on_event \<lparr>stdout = [], stderr = [], settled = Pending\<rparr> ds) (ErrorEv reason)"
  have "settled ?c = Rejected (''Failed to spawn openclaw: '' @ reason)"
    by (simp add: data_events_collected [OF assms] settle_def)
  moreover from this have "settled ?c \<noteq> Pending" by simp
  ultimately show ?thesis
    by (simp add: run_child_def settled_stays)
qed

lemma escapedMessage_escape_quotes: "escapedMessage m = escape_quotes m"
  by (induction m) (simp_all add: escapedMessage_def)

lemma timeout_text: "nat_to_string 120 = ''120''"
  by code_simp

lemma send_argv_120:
  "send_argv cfg m 120
     = [''sessions'', ''send'', ''--label'', sessionLabel cfg, ''--message'', escape_quotes m,
        ''--timeout'', ''120'']"
  by (simp add: send_argv_def escapedMessage_escape_quotes timeout_text)

text \<open>The log line before the \<open>try\<close> prints the three tool names as they are.\<close>

lemma known_tool_logged:
  assumes "name \<in> known_tools"
  shows "\<exists>n. ToString name = Some n \<and> \<not> log_throws (''[MCP] Calling tool: '' @ n) args"
  using assms by (auto simp: known_tools_def log_throws_def)

text \<open>What \<open>tools/call\<close> makes of the outcome of the tool, in either transport.\<close>

lemma tools_call_outcome:
  assumes "\<not> nullish params"
      and "ToString (js_get params ''name'') = Some n"
      and "\<not> log_throws (''[MCP] Calling tool: '' @ n)
               (js_or (js_get params ''arguments'') (JObj []))"
      and "call_tool cfg e (js_get params ''name'') (js_or (js_get params ''arguments'') (JObj []))
             = (p, calls)"
  shows "handleRequest cfg e ss (JStr ''tools/call'') params rid
           = (case p of
                Pending \<Rightarrow> Pending
              | Resolved result \<Rightarrow>
                  Resolved (text_result rid (if result = [] then ''Success'' else result))
              | Rejected message \<Rightarrow> Resolved (error_result rid message),
              ss, calls)"
  using assms
  by (cases p) (simp_all add: handleRequest_def Let_def text_result_def error_result_def)

lemma known_tool_outcome:
  assumes "js_get params ''name'' \<in> known_tools"
      and "call_tool cfg e (js_get params ''name'') (js_or (js_get params ''arguments'') (JObj []))
             = (p, calls)"
  shows "handleRequest cfg e ss (JStr ''tools/call'') params rid
           = (case p of
                Pending \<Rightarrow> Pending
              | Resolved result \<Rightarrow>
                  Resolved (text_result rid (if result = [] then ''Success'' else result))
              | Rejected message \<Rightarrow> Resolved (error_result rid message),
              ss, calls)"
proof -
  from assms(1) have "js_get params ''name'' \<noteq> JUndefined"
    by (auto simp: known_tools_def)
  then have defined: "\<not> nullish params"
    by (rule member_not_nullish)
  from known_tool_logged [OF assms(1)] obtain n
    where n: "ToString (js_get params ''name'') = Some n"
      and logged: "\<not> log_throws (''[MCP] Calling tool: '' @ n)
               (js_or (js_get params ''arguments'') (JObj []))"
    by blast
  from tools_call_outcome [OF defined n logged assms(2)] show ?thesis .
qed

lemma sdk_call_outcome:
  assumes "\<not> nullish params"
      and "call_tool_sdk cfg e (js_get params ''name'') (js_get params ''arguments'') = (p, calls)"
  shows "CallToolRequest_sdk cfg e params
           = (case p of
                Pending \<Rightarrow> Pending
              | Resolved result \<Rightarrow>
                  Resolved (text_content (if result = [] then ''Success'' else result))
              | Rejected message \<Rightarrow> Resolved (error_content message),
              calls)"
  using assms
  by (cases p) (simp_all add: CallToolRequest_sdk_def text_content_def error_content_def)

lemma known_tool_sdk_outcome:
  assumes "js_get params ''name'' \<in> known_tools"
      and "call_tool_sdk cfg e (js_get params ''name'') (js_get params ''arguments'') = (p, calls)"
  shows "CallToolRequest_sdk cfg e params
           = (case p of
                Pending \<Rightarrow> Pending
              | Resolved result \<Rightarrow>
                  Resolved (text_content (if result = [] then ''Success'' else result))
              | Rejected message \<Rightarrow> Resolved (error_content message),
              calls)"
proof -
  from assms(1) have "js_get params ''name'' \<noteq> JUndefined"
    by (auto simp: known_tools_def)
  then have "\<not> nullish params"
    by (rule member_not_nullish)
  from sdk_call_outcome [OF this assms(2)] show ?thesis .
qed

lemma ask_call:
  assumes "js_get args ''message'' = JStr m" and "m \<noteq> []"
  shows "call_tool cfg e (JStr ''ask'') (js_or args (JObj []))
           = (openclaw e (send_argv cfg m 120), [(''openclaw'', send_argv cfg m 120)])"
    and "call_tool_sdk cfg e (JStr ''ask'') args
           = (openclaw e (send_argv cfg m 120), [(''openclaw'', send_argv cfg m 120)])"
  using assms by (simp_all add: call_tool_def call_tool_sdk_def js_get_or_empty sendToOpenClaw_def)

lemma ask_no_message:
  assumes "\<not> truthy (js_get args ''message'')"
  shows "call_tool cfg e (JStr ''ask'') (js_or args (JObj [])) = (Rejected missing_message, [])"
    and "call_tool_sdk cfg e (JStr ''ask'') args = (Rejected missing_message, [])"
  using assms by (simp_all add: call_tool_def call_tool_sdk_def js_get_or_empty)

text \<open>A tool that returned a text was one of the three.\<close>

lemma call_tool_resolved_known:
  assumes "call_tool cfg e name args = (Resolved r, calls)"
  shows "name \<in> known_tools"
proof (rule ccontr)
  assume "name \<notin> known_tools"
  then have "name \<noteq> JStr ''ask''" "name \<noteq> JStr ''memory_search''"
    "name \<noteq> JStr ''sessions_status''"
    by (auto simp: known_tools_def)
  with assms show False
    by (simp add: call_tool_def split: option.splits)
qed

lemma call_tool_sdk_resolved_known:
  assumes "call_tool_sdk cfg e name args = (Resolved r, calls)"
  shows "name \<in> known_tools"
proof (rule ccontr)
  assume "name \<notin> known_tools"
  then have "name \<noteq> JStr ''ask''" "name \<noteq> JStr ''memory_search''"
    "name \<noteq> JStr ''sessions_status''"
    by (auto simp: known_tools_def)
  with assms show False
    by (simp add: call_tool_sdk_def split: option.splits)
qed













text \<open>Every envelope the dispatcher returns carries the request's \<open>id\<close>.\<close>

lemma handleRequest_id:
  assumes res: "fst (handleRequest cfg e ss method params rid) = Resolved resp"
      and env: "resp \<noteq> JNull"
  shows "js_get resp ''id'' = rid"
proof (cases "ToString method")
  case None
  with res show ?thesis by (simp add: handleRequest_def)
next
  case (Some logged)
  consider (init) "method = JStr ''initialize''" | (notified) "method = JStr ''initialized''"
    | (listing) "method = JStr ''tools/list''" | (calling) "method = JStr ''tools/call''"
    | (ping) "method = JStr ''ping''" | (other) "method \<notin> known_methods"
    by (auto simp: known_methods_def)
  then show ?thesis
  proof cases
    case init
    with res show ?thesis
      by (cases "nullish params") (auto simp: handleRequest_def)
  next
    case notified
    with res env show ?thesis by (simp add: handleRequest_def)
  next
    case listing
    with res show ?thesis by (auto simp: handleRequest_def)
  next
    case calling
    let ?args = "js_or (js_get params ''arguments'') (JObj [])"
    show ?thesis
    proof (cases "nullish params")
      case True
      with res calling show ?thesis by (simp add: handleRequest_def)
    next
      case defined: False
      show ?thesis
      proof (cases "ToString (js_get params ''name'')")
        case None
        with res calling defined show ?thesis by (simp add: handleRequest_def)
      next
        case named: (Some n)
        show ?thesis
        proof (cases "log_throws (''[MCP] Calling tool: '' @ n) ?args")
          case True
          with res calling defined named show ?thesis
            by (simp add: handleRequest_def Let_def)
        next
          case logged: False
          obtain p calls where pc: "call_tool cfg e (js_get params ''name'') ?args = (p, calls)"
            by (cases "call_tool cfg e (js_get params ''name'') ?args")
          from tools_call_outcome [OF defined named logged pc, of ss rid] res calling
          show ?thesis
            by (cases p) (auto simp: text_result_def error_result_def)
        qed
      qed
    qed
  next
    case ping
    with res show ?thesis by (auto simp: handleRequest_def)
  next
    case other
    have "handleRequest cfg e ss method params rid
           = (Resolved (JObj
               [(''jsonrpc'', JStr ''2.0''), (''id'', rid),
                (''error'', JObj [(''code'', JNum ''-32601''),
                                  (''message'', JStr (''Method not found: '' @ logged))])]), ss, [])"
      using Some other by (simp add: handleRequest_def known_methods_def)
    with res show ?thesis by auto
  qed
qed

text \<open>When the dispatcher does return an envelope.\<close>

lemma initialize_answers:
  assumes "\<not> nullish params"
  shows "\<exists>resp. fst (handleRequest cfg e ss (JStr ''initialize'') params rid) = Resolved resp
           \<and> resp \<noteq> JNull \<and> js_get resp ''id'' = rid"
  using assms by (simp add: handleRequest_def)

lemma handleRequest_answers:
  assumes "ToString method \<noteq> None" and "method \<noteq> JStr ''initialize''"
      and "method \<noteq> JStr ''initialized''" and "method \<noteq> JStr ''tools/call''"
  shows "\<exists>resp. fst (handleRequest cfg e ss method params rid) = Resolved resp
           \<and> resp \<noteq> JNull \<and> js_get resp ''id'' = rid"
proof -
  obtain logged where logged: "ToString method = Some logged"
    using assms(1) by auto
  consider (listing) "method = JStr ''tools/list''"
    | (ping) "method = JStr ''ping''" | (other) "method \<notin> known_methods"
    using assms(2,3,4) by (auto simp: known_methods_def)
  then show ?thesis
  proof cases
    case listing
    then show ?thesis by (simp add: handleRequest_def)
  next
    case ping
    then show ?thesis by (simp add: handleRequest_def)
  next
    case other
    with logged show ?thesis by (simp add: handleRequest_def known_methods_def)
  qed
qed

lemma tools_call_answers:
  assumes "\<not> nullish params"
      and "ToString (js_get params ''name'') = Some n"
      and "\<not> log_throws (''[MCP] Calling tool: '' @ n)
               (js_or (js_get params ''arguments'') (JObj []))"
      and "fst (call_tool cfg e (js_get params ''name'')
                 (js_or (js_get params ''arguments'') (JObj []))) \<noteq> Pending"
  shows "\<exists>resp. fst (handleRequest cfg e ss (JStr ''tools/call'') params rid) = Resolved resp
           \<and> resp \<noteq> JNull \<and> js_get resp ''id'' = rid"
proof -
  obtain p calls where pc: "call_tool cfg e (js_get params ''name'')
                 (js_or (js_get params ''arguments'') (JObj [])) = (p, calls)"
    by (cases "call_tool cfg e (js_get params ''name'')
                 (js_or (js_get params ''arguments'') (JObj []))")
  with assms(4) have "p \<noteq> Pending" by simp
  with tools_call_outcome [OF assms(1,2,3) pc, of ss rid] show ?thesis
    by (cases p) (simp_all add: text_result_def error_result_def)
qed

text \<open>Where the dispatcher throws instead.\<close>

lemma handleRequest_throws:
  "nullish params \<Longrightarrow> handleRequest cfg e ss (JStr ''initialize'') params rid
     = (Rejected (cannot_read params ''protocolVersion''), ss, [])"
  "nullish params \<Longrightarrow> handleRequest cfg e ss (JStr ''tools/call'') params rid
     = (Rejected (cannot_read params ''name''), ss, [])"
  "\<not> nullish params \<Longrightarrow> ToString (js_get params ''name'') = None
     \<Longrightarrow> handleRequest cfg e ss (JStr ''tools/call'') params rid = (Rejected cannot_convert, ss, [])"
  "\<not> nullish params \<Longrightarrow> ToString (js_get params ''name'') = Some n
     \<Longrightarrow> log_throws (''[MCP] Calling tool: '' @ n) (js_or (js_get params ''arguments'') (JObj []))
     \<Longrightarrow> handleRequest cfg e ss (JStr ''tools/call'') params rid = (Rejected cannot_convert, ss, [])"
  by (simp_all add: handleRequest_def Let_def)

text \<open>The POST handler, by the state of the body.\<close>

lemma post_handler_unprintable:
  assumes "ToString (js_get reqBody ''method'') = None \<or> ToString (js_get reqBody ''id'') = None"
  shows "post_handler cfg e ss reqBody = (Rejected cannot_convert, ss, [])"
proof -
  from assms have "\<exists>kvs. reqBody = JObj kvs"
    by (cases reqBody) auto
  with assms show ?thesis
    by (auto simp: post_handler_def Let_def)
qed

lemma post_handler_invalid_version:
  assumes "reqBody \<noteq> JUndefined" and "reqBody \<noteq> JNull"
      and "ToString (js_get reqBody ''method'') \<noteq> None"
      and "ToString (js_get reqBody ''id'') \<noteq> None"
      and "js_get reqBody ''jsonrpc'' \<noteq> JStr ''2.0''"
  shows "post_handler cfg e ss reqBody
           = (Resolved (Http 400 (Some (JObj
                [(''jsonrpc'', JStr ''2.0''),
                 (''error'', JObj [(''code'', JNum ''-32600''),
                                   (''message'', JStr ''Invalid JSON-RPC version'')]),
                 (''id'', JNull)]))), ss, [])"
  using assms by (simp add: post_handler_def Let_def)

lemma post_handler_dispatch:
  assumes "ToString (js_get reqBody ''method'') \<noteq> None"
      and "ToString (js_get reqBody ''id'') \<noteq> None"
      and "js_get reqBody ''jsonrpc'' = JStr ''2.0''"
      and "handleRequest cfg e ss (js_get reqBody ''method'')
             (js_or (js_get reqBody ''params'') (JObj [])) (js_get reqBody ''id'') = (p, ss', calls)"
  shows "post_handler cfg e ss reqBody
           = (case p of
                Pending \<Rightarrow> Pending
              | Resolved response \<Rightarrow>
                  Resolved (if response = JNull then Http 202 None else Http 200 (Some response))
              | Rejected message \<Rightarrow>
                  Resolved (Http 500 (Some (JObj
                    [(''jsonrpc'', JStr ''2.0''),
                     (''error'', JObj [(''code'', JNum ''-32603''), (''message'', JStr message)]),
                     (''id'', js_get reqBody ''id'')]))),
              ss', calls)"
  using assms body_is_object [OF assms(3)]
  by (cases p) (simp_all add: post_handler_def Let_def)

lemma post_handler_id:
  assumes sent: "fst (post_handler cfg e ss reqBody) = Resolved (Http status (Some resp))"
      and status: "status \<noteq> 400"
  shows "js_get resp ''id'' = js_get reqBody ''id''"
proof -
  let ?h = "handleRequest cfg e ss (js_get reqBody ''method'')
              (js_or (js_get reqBody ''params'') (JObj [])) (js_get reqBody ''id'')"
  obtain p ss' calls where h: "?h = (p, ss', calls)"
    by (cases ?h)
  have "\<not> (ToString (js_get reqBody ''method'') = None \<or> ToString (js_get reqBody ''id'') = None)"
  proof
    assume "ToString (js_get reqBody ''method'') = None \<or> ToString (js_get reqBody ''id'') = None"
    from post_handler_unprintable [OF this, of cfg e ss] sent show False by simp
  qed
  then have printable: "ToString (js_get reqBody ''method'') \<noteq> None"
    "ToString (js_get reqBody ''id'') \<noteq> None"
    by simp_all
  have defined: "reqBody \<noteq> JUndefined" "reqBody \<noteq> JNull"
    using sent by (auto simp: post_handler_def)
  have version: "js_get reqBody ''jsonrpc'' = JStr ''2.0''"
  proof (rule ccontr)
    assume "js_get reqBody ''jsonrpc'' \<noteq> JStr ''2.0''"
    from post_handler_invalid_version [OF defined printable this, of cfg e ss] sent status
    show False by simp
  qed
  note post = post_handler_dispatch [OF printable version h]
  show ?thesis
  proof (cases p)
    case Pending
    with post sent show ?thesis by simp
  next
    case (Resolved r)
    with post sent have "r \<noteq> JNull" "resp = r"
      by (auto split: if_splits)
    with handleRequest_id [of cfg e ss "js_get reqBody ''method''"
        "js_or (js_get reqBody ''params'') (JObj [])" "js_get reqBody ''id''" r] h Resolved
    show ?thesis by simp
  next
    case (Rejected m)
    with post sent show ?thesis by auto
  qed
qed

lemma initialized_acknowledged:
  assumes "js_get reqBody ''jsonrpc'' = JStr ''2.0''"
      and "js_get reqBody ''method'' = JStr ''initialized''"
      and "ToString (js_get reqBody ''id'') \<noteq> None"
  shows "post_handler cfg e ss reqBody = (Resolved (Http 202 None), ss, [])"
proof -
  have "handleRequest cfg e ss (js_get reqBody ''method'')
             (js_or (js_get reqBody ''params'') (JObj [])) (js_get reqBody ''id'')
          = (Resolved JNull, ss, [])"
    using assms(2) by (simp add: handleRequest_def)
  from post_handler_dispatch [OF _ assms(3,1) this] assms(2) show ?thesis by simp
qed

lemma post_handler_answers:
  assumes "js_get reqBody ''jsonrpc'' = JStr ''2.0''"
      and "ToString (js_get reqBody ''method'') \<noteq> None"
      and "ToString (js_get reqBody ''id'') \<noteq> None"
      and "js_get reqBody ''method'' \<noteq> JStr ''initialized''"
      and "js_get reqBody ''method'' \<noteq> JStr ''tools/call''"
  shows "\<exists>sent ss'. post_handler cfg e ss reqBody = (Resolved (Http 200 (Some sent)), ss', [])
           \<and> js_get sent ''id'' = js_get reqBody ''id''"
proof -
  let ?params = "js_or (js_get reqBody ''params'') (JObj [])"
  let ?h = "handleRequest cfg e ss (js_get reqBody ''method'') ?params (js_get reqBody ''id'')"
  have "\<exists>resp. fst ?h = Resolved resp \<and> resp \<noteq> JNull
          \<and> js_get resp ''id'' = js_get reqBody ''id''"
  proof (cases "js_get reqBody ''method'' = JStr ''initialize''")
    case True
    with initialize_answers [OF or_empty_not_nullish, of cfg e ss "js_get reqBody ''params''"
        "js_get reqBody ''id''"]
    show ?thesis by simp
  next
    case False
    from handleRequest_answers [OF assms(2) False assms(4,5)] show ?thesis .
  qed
  then obtain resp where resp: "fst ?h = Resolved resp" "resp \<noteq> JNull"
    "js_get resp ''id'' = js_get reqBody ''id''"
    by blast
  have quiet: "snd (snd ?h) = []"
    using assms(2,5) by (auto simp: handleRequest_def split: option.splits)
  obtain ss' where h: "?h = (Resolved resp, ss', [])"
    using resp(1) quiet by (cases ?h) auto
  from post_handler_dispatch [OF assms(2,3,1) h] resp(2,3) show ?thesis
    by simp
qed

lemma post_initialize:
  assumes "js_get reqBody ''jsonrpc'' = JStr ''2.0''"
      and "js_get reqBody ''method'' = JStr ''initialize''"
      and "ToString (js_get reqBody ''id'') \<noteq> None"
  shows "post_handler cfg e ss reqBody
           = (Resolved (Http 200 (Some (JObj
                [(''jsonrpc'', JStr ''2.0''),
                 (''id'', js_get reqBody ''id''),
                 (''result'', JObj
                    [(''protocolVersion'', JStr ''2024-11-05''),
                     (''capabilities'', SERVER_CAPABILITIES),
                     (''serverInfo'', SERVER_INFO cfg),
                     (''sessionId'', JStr (randomUUID e))])]))),
              ss(randomUUID e \<mapsto>
                 \<lparr>initialized = True,
                  protocolVersion = js_get (js_get reqBody ''params'') ''protocolVersion'',
                  clientInfo = js_get (js_get reqBody ''params'') ''clientInfo''\<rparr>),
              [])"
proof -
  let ?params = "js_or (js_get reqBody ''params'') (JObj [])"
  have "handleRequest cfg e ss (js_get reqBody ''method'') ?params (js_get reqBody ''id'')
          = (Resolved (JObj
                [(''jsonrpc'', JStr ''2.0''),
                 (''id'', js_get reqBody ''id''),
                 (''result'', JObj
                    [(''protocolVersion'', JStr ''2024-11-05''),
                     (''capabilities'', SERVER_CAPABILITIES),
                     (''serverInfo'', SERVER_INFO cfg),
                     (''sessionId'', JStr (randomUUID e))])]),
              ss(randomUUID e \<mapsto>
                 \<lparr>initialized = True,
                  protocolVersion = js_get (js_get reqBody ''params'') ''protocolVersion'',
                  clientInfo = js_get (js_get reqBody ''params'') ''clientInfo''\<rparr>),
              [])"
    using assms(2) or_empty_not_nullish [of "js_get reqBody ''params''"]
    by (simp add: handleRequest_def js_get_or_empty)
  from post_handler_dispatch [OF _ assms(3,1) this] assms(2) show ?thesis
    by simp
qed

text \<open>An unknown tool, as long as the log line before the \<open>try\<close> prints: the error block,
  with status 200 from the POST handler.\<close>

lemma unknown_tool_answered:
  assumes name: "ToString (js_get params ''name'') = Some n"
      and unknown: "js_get params ''name'' \<notin> known_tools"
      and logged: "\<not> log_throws (''[MCP] Calling tool: '' @ n)
               (js_or (js_get params ''arguments'') (JObj []))"
  shows "\<not> nullish params \<Longrightarrow> handleRequest cfg e ss (JStr ''tools/call'') params rid
           = (Resolved (error_result rid (''Unknown tool: '' @ n)), ss, [])"
    and "js_get reqBody ''jsonrpc'' = JStr ''2.0'' \<Longrightarrow> js_get reqBody ''method'' = JStr ''tools/call''
         \<Longrightarrow> js_get reqBody ''params'' = params \<Longrightarrow> ToString (js_get reqBody ''id'') \<noteq> None
         \<Longrightarrow> post_handler cfg e ss reqBody
               = (Resolved (Http 200 (Some
                    (error_result (js_get reqBody ''id'') (''Unknown tool: '' @ n)))), ss, [])"
    and "\<not> nullish params \<Longrightarrow> CallToolRequest_sdk cfg e params
           = (Resolved (error_content (''Unknown tool: '' @ n)), [])"
proof -
  have disp: "handleRequest cfg e ss (JStr ''tools/call'') p i
           = (Resolved (error_result i (''Unknown tool: '' @ n)), ss, [])"
    if same: "js_get p ''name'' = js_get params ''name''"
      "js_get p ''arguments'' = js_get params ''arguments''" and defined: "\<not> nullish p" for p i
  proof -
    have "call_tool cfg e (js_get p ''name'') (js_or (js_get p ''arguments'') (JObj []))
            = (Rejected (''Unknown tool: '' @ n), [])"
      using unknown_tool_rejected(1) [OF name unknown] same by simp
    from tools_call_outcome [OF defined _ _ this, of n ss i] name logged same show ?thesis
      by simp
  qed
  show "handleRequest cfg e ss (JStr ''tools/call'') params rid
           = (Resolved (error_result rid (''Unknown tool: '' @ n)), ss, [])"
    if "\<not> nullish params"
    using disp [of params rid] that by simp
  show "post_handler cfg e ss reqBody
               = (Resolved (Http 200 (Some
                    (error_result (js_get reqBody ''id'') (''Unknown tool: '' @ n)))), ss, [])"
    if b: "js_get reqBody ''jsonrpc'' = JStr ''2.0''"
      "js_get reqBody ''method'' = JStr ''tools/call''"
      "js_get reqBody ''params'' = params" "ToString (js_get reqBody ''id'') \<noteq> None"
  proof -
    let ?p = "js_or (js_get reqBody ''params'') (JObj [])"
    have "handleRequest cfg e ss (js_get reqBody ''method'') ?p (js_get reqBody ''id'')
           = (Resolved (error_result (js_get reqBody ''id'') (''Unknown tool: '' @ n)), ss, [])"
      using disp [of ?p "js_get reqBody ''id''"] b(2,3)
      by (simp add: js_get_or_empty or_empty_not_nullish)
    from post_handler_dispatch [OF _ b(4,1) this] b(2) show ?thesis
      by (simp add: error_result_def)
  qed
  show "CallToolRequest_sdk cfg e params
           = (Resolved (error_content (''Unknown tool: '' @ n)), [])"
    if "\<not> nullish params"
    using sdk_call_outcome [OF that unknown_tool_rejected(2) [OF name unknown]] by simp
qed

section \<open>The claims\<close>

text \<open>
  Claim C2. A \<open>tools/call\<close> whose \<open>params.name\<close> is none of \<open>ask\<close>, \<open>memory_search\<close>,
  \<open>sessions_status\<close> is answered with status 200 and a result whose single text block reads
  \<open>Error: Unknown tool: <name>\<close>, \<open>isError\<close> set, as long as the log line before the \<open>try\<close>
  prints (lemma \<open>unknown_tool_answered\<close>). That line hands the tool name to \<open>console.log\<close> as
  a format string, with the arguments behind it. For the request
  \<open>{"jsonrpc": "2.0", "id": 1, "method": "tools/call", "params": {"name": "%d", "arguments":
  {"toString": 1}}}\<close>, sent with the right bearer token, \<open>%d\<close> makes it convert the arguments
  to a number, which throws outside the \<open>try\<close>: the dispatcher rejects, and the answer is
  status 500 with a JSON-RPC error of code -32603, not an error block.
\<close>

theorem unknown_tool_log_line_throws:
  "post_mcp sample_config sample_env Map.empty
     \<lparr>authorization = Some ''Bearer s3cret'',
      body = rpc_body (JNum ''1'') ''tools/call''
               (call_params ''%d'' (JObj [(''toString'', JNum ''1'')]))\<rparr>
     = (Resolved (Http 500 (Some (JObj
          [(''jsonrpc'', JStr ''2.0''),
           (''error'', JObj [(''code'', JNum ''-32603''), (''message'', JStr cannot_convert)]),
           (''id'', JNum ''1'')]))),
        Map.empty, [])"
proof -
  let ?params = "call_params ''%d'' (JObj [(''toString'', JNum ''1'')])"
  have "handleRequest sample_config sample_env Map.empty (JStr ''tools/call'') ?params (JNum ''1'')
          = (Rejected cannot_convert, Map.empty, [])"
    by (simp add: handleRequest_def call_params_def js_or_def log_throws_def)
  then show ?thesis
    by (simp add: post_mcp_def authenticate_def sample_config_def startsWith_def substring_def
          post_handler_def Let_def rpc_body_def js_or_def call_params_def)
qed

text \<open>
  Claim C3. \<open>authenticate\<close>, in both transports: without an \<open>Authorization\<close> header, or with
  one that does not start with \<open>Bearer \<close>, the response has status 401; with a bearer token
  other than the configured key it has status 403; with the key itself \<open>next()\<close> is called,
  and \<open>POST /mcp\<close> is then exactly what the handler makes of the body it was sent. A
  request \<open>authenticate\<close> answers never reaches the handler: no session is stored and
  nothing is spawned.
\<close>

theorem authenticate_statuses:
  "(authHeader = None \<or> (\<exists>h. authHeader = Some h \<and> \<not> startsWith h ''Bearer '')
      \<longrightarrow> (\<exists>b. authenticate cfg authHeader = Some (Http 401 b))
          \<and> (\<exists>b. authenticate_sdk cfg authHeader = Some (Http 401 b)))
   \<and> (token \<noteq> apiKey cfg
      \<longrightarrow> (\<exists>b. authenticate cfg (Some (''Bearer '' @ token)) = Some (Http 403 b))
          \<and> (\<exists>b. authenticate_sdk cfg (Some (''Bearer '' @ token)) = Some (Http 403 b)))
   \<and> authenticate cfg (Some (''Bearer '' @ apiKey cfg)) = None
   \<and> authenticate_sdk cfg (Some (''Bearer '' @ apiKey cfg)) = None
   \<and> (authorization req = Some (''Bearer '' @ apiKey cfg)
      \<longrightarrow> post_mcp cfg e ss req = post_handler cfg e ss (body req))
   \<and> (authenticate cfg (authorization req) = Some denied
      \<longrightarrow> post_mcp cfg e ss req = (Resolved denied, ss, []))"
proof -
  have unauth: "authHeader = None \<or> (\<exists>h. authHeader = Some h \<and> \<not> startsWith h ''Bearer '')
      \<Longrightarrow> (\<exists>b. authenticate cfg authHeader = Some (Http 401 b))
          \<and> (\<exists>b. authenticate_sdk cfg authHeader = Some (Http 401 b))"
    by (auto simp: authenticate_def authenticate_sdk_def)
  have forbidden: "token \<noteq> apiKey cfg
      \<Longrightarrow> (\<exists>b. authenticate cfg (Some (''Bearer '' @ token)) = Some (Http 403 b))
          \<and> (\<exists>b. authenticate_sdk cfg (Some (''Bearer '' @ token)) = Some (Http 403 b))"
    using bearer_token [of token] by (simp add: authenticate_def authenticate_sdk_def)
  have ok: "authenticate cfg (Some (''Bearer '' @ apiKey cfg)) = None"
    "authenticate_sdk cfg (Some (''Bearer '' @ apiKey cfg)) = None"
    using bearer_token [of "apiKey cfg"] by (simp_all add: authenticate_def authenticate_sdk_def)
  have proceed: "authorization req = Some (''Bearer '' @ apiKey cfg)
      \<Longrightarrow> post_mcp cfg e ss req = post_handler cfg e ss (body req)"
    using ok(1) by (simp add: post_mcp_def)
  have stop: "authenticate cfg (authorization req) = Some denied
      \<Longrightarrow> post_mcp cfg e ss req = (Resolved denied, ss, [])"
    by (simp add: post_mcp_def)
  from unauth forbidden ok proceed stop show ?thesis by blast
qed

theorem authenticate_statuses_witness:
  "(\<exists>b. authenticate sample_config (Some ''Basic dXNlcjpwdw=='') = Some (Http 401 b))
   \<and> (\<exists>b. authenticate_sdk sample_config (Some ''Basic dXNlcjpwdw=='') = Some (Http 401 b))
   \<and> (\<exists>b. authenticate sample_config (Some (''Bearer '' @ ''guess'')) = Some (Http 403 b))
   \<and> (\<exists>b. authenticate_sdk sample_config (Some (''Bearer '' @ ''guess'')) = Some (Http 403 b))
   \<and> authenticate sample_config (Some (''Bearer '' @ ''s3cret'')) = None
   \<and> post_mcp sample_config sample_env Map.empty
        \<lparr>authorization = Some (''Bearer '' @ ''s3cret''),
         body = rpc_body (JNum ''1'') ''ping'' JUndefined\<rparr>
       = post_handler sample_config sample_env Map.empty (rpc_body (JNum ''1'') ''ping'' JUndefined)"
  using authenticate_statuses [where authHeader = "Some ''Basic dXNlcjpwdw==''"
          and cfg = sample_config and token = "''guess''" and e = sample_env and ss = Map.empty
          and req = "\<lparr>authorization = Some (''Bearer '' @ ''s3cret''),
                      body = rpc_body (JNum ''1'') ''ping'' JUndefined\<rparr>"]
  by (simp add: sample_config_def startsWith_def)

text \<open>
  Claim C7. A method outside \<open>initialize\<close>, \<open>initialized\<close>, \<open>tools/list\<close>, \<open>tools/call\<close>,
  \<open>ping\<close> makes the dispatcher return a JSON-RPC error of code -32601 that names the method
  and carries the request's \<open>id\<close>; for a body with \<open>jsonrpc\<close> 2.0 the POST handler sends
  that envelope with status 200. The method is any value a template literal can print (every
  string is); the request's \<open>id\<close> likewise.
\<close>

theorem unknown_method_not_found:
  assumes "ToString method = Some m" and "method \<notin> known_methods"
  shows "handleRequest cfg e ss method params rid
           = (Resolved (rpc_error rid ''-32601'' (''Method not found: '' @ m)), ss, [])
       \<and> (js_get reqBody ''jsonrpc'' = JStr ''2.0''
            \<and> js_get reqBody ''method'' = method
            \<and> ToString (js_get reqBody ''id'') \<noteq> None
          \<longrightarrow> post_handler cfg e ss reqBody
                = (Resolved (Http 200 (Some
                     (rpc_error (js_get reqBody ''id'') ''-32601'' (''Method not found: '' @ m)))),
                   ss, []))"
proof -
  have disp: "handleRequest cfg e ss method p i
           = (Resolved (rpc_error i ''-32601'' (''Method not found: '' @ m)), ss, [])" for p i
    using assms by (simp add: handleRequest_def rpc_error_def known_methods_def)
  have "post_handler cfg e ss reqBody
                = (Resolved (Http 200 (Some
                     (rpc_error (js_get reqBody ''id'') ''-32601'' (''Method not found: '' @ m)))),
                   ss, [])"
    if b: "js_get reqBody ''jsonrpc'' = JStr ''2.0''" "js_get reqBody ''method'' = method"
      "ToString (js_get reqBody ''id'') \<noteq> None"
    using b assms(1) body_is_object [OF b(1)]
      disp [of "js_or (js_get reqBody ''params'') (JObj [])" "js_get reqBody ''id''"]
    by (simp add: post_handler_def Let_def rpc_error_def)
  with disp [of params rid] show ?thesis by blast
qed

theorem unknown_method_not_found_witness:
  "post_handler sample_config sample_env Map.empty
     (rpc_body (JStr ''a-1'') ''resources/list'' JUndefined)
     = (Resolved (Http 200 (Some
          (rpc_error (JStr ''a-1'') ''-32601'' ''Method not found: resources/list''))),
        Map.empty, [])"
  using unknown_method_not_found [of "JStr ''resources/list''" "''resources/list''"
          sample_config sample_env Map.empty _ _
          "rpc_body (JStr ''a-1'') ''resources/list'' JUndefined"]
  by (simp add: rpc_body_def known_methods_def)

text \<open>
  Claim C9. The result of \<open>initialize\<close> gives \<open>protocolVersion\<close> as 2024-11-05 whatever the
  client sent. The POST handler answers every \<open>initialize\<close> body of version 2.0 whose \<open>id\<close>
  prints with status 200 and that result, be the parameters an object, absent or \<open>null\<close>
  (it hands \<open>params || {}\<close> on). The dispatcher itself returns the same envelope for any
  two parameter values that are not \<open>undefined\<close> or \<open>null\<close>, and throws on those two. The
  version the client sent goes into the session record stored under the new identifier and
  nowhere else, and since neither the response nor the \<open>spawn\<close> calls of any request depend on
  the session table, it is never used afterwards.
\<close>

theorem initialize_fixed_version:
  "(\<not> nullish params
      \<longrightarrow> (\<exists>resp. fst (handleRequest cfg e ss (JStr ''initialize'') params rid) = Resolved resp
             \<and> js_get (js_get resp ''result'') ''protocolVersion'' = JStr ''2024-11-05''))
   \<and> (\<not> nullish params \<and> \<not> nullish params'
      \<longrightarrow> fst (handleRequest cfg e ss (JStr ''initialize'') params' rid)
           = fst (handleRequest cfg e ss (JStr ''initialize'') params rid))
   \<and> (\<not> nullish params
      \<longrightarrow> fst (snd (handleRequest cfg e ss (JStr ''initialize'') params rid))
           = ss(randomUUID e \<mapsto>
                \<lparr>initialized = True,
                 protocolVersion = js_get params ''protocolVersion'',
                 clientInfo = js_get params ''clientInfo''\<rparr>))
   \<and> (nullish params
      \<longrightarrow> handleRequest cfg e ss (JStr ''initialize'') params rid
           = (Rejected (cannot_read params ''protocolVersion''), ss, []))
   \<and> (js_get reqBody ''jsonrpc'' = JStr ''2.0'' \<and> js_get reqBody ''method'' = JStr ''initialize''
       \<and> ToString (js_get reqBody ''id'') \<noteq> None
      \<longrightarrow> post_handler cfg e ss reqBody
           = (Resolved (Http 200 (Some (JObj
                [(''jsonrpc'', JStr ''2.0''),
                 (''id'', js_get reqBody ''id''),
                 (''result'', JObj
                    [(''protocolVersion'', JStr ''2024-11-05''),
                     (''capabilities'', SERVER_CAPABILITIES),
                     (''serverInfo'', SERVER_INFO cfg),
                     (''sessionId'', JStr (randomUUID e))])]))),
              ss(randomUUID e \<mapsto>
                 \<lparr>initialized = True,
                  protocolVersion = js_get (js_get reqBody ''params'') ''protocolVersion'',
                  clientInfo = js_get (js_get reqBody ''params'') ''clientInfo''\<rparr>),
              []))
   \<and> fst (handleRequest cfg e ss' method params rid) = fst (handleRequest cfg e ss method params rid)
   \<and> snd (snd (handleRequest cfg e ss' method params rid))
       = snd (snd (handleRequest cfg e ss method params rid))
   \<and> fst (post_handler cfg e ss' reqBody) = fst (post_handler cfg e ss reqBody)
   \<and> snd (snd (post_handler cfg e ss' reqBody)) = snd (snd (post_handler cfg e ss reqBody))"
proof -
  have "\<exists>resp. fst (handleRequest cfg e ss (JStr ''initialize'') params rid) = Resolved resp
        \<and> js_get (js_get resp ''result'') ''protocolVersion'' = JStr ''2024-11-05''"
    if "\<not> nullish params"
    using that by (simp add: handleRequest_def)
  moreover have "fst (handleRequest cfg e ss (JStr ''initialize'') params' rid)
       = fst (handleRequest cfg e ss (JStr ''initialize'') params rid)"
    if "\<not> nullish params" "\<not> nullish params'"
    using that by (simp add: handleRequest_def)
  moreover have "fst (snd (handleRequest cfg e ss (JStr ''initialize'') params rid))
       = ss(randomUUID e \<mapsto>
            \<lparr>initialized = True,
             protocolVersion = js_get params ''protocolVersion'',
             clientInfo = js_get params ''clientInfo''\<rparr>)"
    if "\<not> nullish params"
    using that by (simp add: handleRequest_def)
  ultimately show ?thesis
    using handleRequest_sessions_unread post_handler_sessions_unread
      handleRequest_throws(1) [of params cfg e ss rid] post_initialize [of reqBody cfg e ss]
    by blast
qed

theorem initialize_fixed_version_witness:
  "post_handler sample_config sample_env Map.empty
       (rpc_body (JNum ''1'') ''initialize'' (JObj [(''protocolVersion'', JStr ''2025-06-18'')]))
     = (Resolved (Http 200 (Some (JObj
          [(''jsonrpc'', JStr ''2.0''),
           (''id'', JNum ''1''),
           (''result'', JObj
              [(''protocolVersion'', JStr ''2024-11-05''),
               (''capabilities'', SERVER_CAPABILITIES),
               (''serverInfo'', SERVER_INFO sample_config),
               (''sessionId'', JStr (randomUUID sample_env))])]))),
        [randomUUID sample_env \<mapsto>
           \<lparr>initialized = True, protocolVersion = JStr ''2025-06-18'',
            clientInfo = JUndefined\<rparr>],
        [])
   \<and> fst (post_handler sample_config sample_env Map.empty
       (JObj [(''jsonrpc'', JStr ''2.0''), (''id'', JNum ''2''), (''method'', JStr ''initialize'')]))
     = Resolved (Http 200 (Some (JObj
          [(''jsonrpc'', JStr ''2.0''),
           (''id'', JNum ''2''),
           (''result'', JObj
              [(''protocolVersion'', JStr ''2024-11-05''),
               (''capabilities'', SERVER_CAPABILITIES),
               (''serverInfo'', SERVER_INFO sample_config),
               (''sessionId'', JStr (randomUUID sample_env))])])))
   \<and> fst (handleRequest sample_config sample_env Map.empty (JStr ''initialize'')
          (JObj [(''protocolVersion'', JStr ''2025-06-18'')]) (JNum ''1''))
     = fst (handleRequest sample_config sample_env Map.empty (JStr ''initialize'')
          (JObj [(''protocolVersion'', JStr ''2024-11-05'')]) (JNum ''1''))
   \<and> handleRequest sample_config sample_env Map.empty (JStr ''initialize'') JNull (JNum ''1'')
     = (Rejected (cannot_read JNull ''protocolVersion''), Map.empty, [])"
proof -
  let ?old = "JObj [(''protocolVersion'', JStr ''2024-11-05'')]"
  let ?new = "JObj [(''protocolVersion'', JStr ''2025-06-18'')]"
  let ?sent = "rpc_body (JNum ''1'') ''initialize'' ?new"
  let ?bare = "JObj [(''jsonrpc'', JStr ''2.0''), (''id'', JNum ''2''),
                     (''method'', JStr ''initialize'')]"
  have "post_handler sample_config sample_env Map.empty ?sent
     = (Resolved (Http 200 (Some (JObj
          [(''jsonrpc'', JStr ''2.0''),
           (''id'', JNum ''1''),
           (''result'', JObj
              [(''protocolVersion'', JStr ''2024-11-05''),
               (''capabilities'', SERVER_CAPABILITIES),
               (''serverInfo'', SERVER_INFO sample_config),
               (''sessionId'', JStr (randomUUID sample_env))])]))),
        [randomUUID sample_env \<mapsto>
           \<lparr>initialized = True, protocolVersion = JStr ''2025-06-18'',
            clientInfo = JUndefined\<rparr>],
        [])"
    using initialize_fixed_version [where cfg = sample_config and e = sample_env
        and ss = Map.empty and reqBody = ?sent]
    by (simp add: rpc_body_def)
  moreover have "fst (post_handler sample_config sample_env Map.empty ?bare)
     = Resolved (Http 200 (Some (JObj
          [(''jsonrpc'', JStr ''2.0''),
           (''id'', JNum ''2''),
           (''result'', JObj
              [(''protocolVersion'', JStr ''2024-11-05''),
               (''capabilities'', SERVER_CAPABILITIES),
               (''serverInfo'', SERVER_INFO sample_config),
               (''sessionId'', JStr (randomUUID sample_env))])])))"
    using initialize_fixed_version [where cfg = sample_config and e = sample_env
        and ss = Map.empty and reqBody = ?bare]
    by simp
  moreover have "fst (handleRequest sample_config sample_env Map.empty (JStr ''initialize'')
          ?new (JNum ''1''))
     = fst (handleRequest sample_config sample_env Map.empty (JStr ''initialize'')
          ?old (JNum ''1''))"
    using initialize_fixed_version [where cfg = sample_config and e = sample_env
        and ss = Map.empty and rid = "JNum ''1''" and params = ?old and params' = ?new]
    by simp
  moreover have "handleRequest sample_config sample_env Map.empty (JStr ''initialize'') JNull
          (JNum ''1'')
     = (Rejected (cannot_read JNull ''protocolVersion''), Map.empty, [])"
    using initialize_fixed_version [where cfg = sample_config and e = sample_env
        and ss = Map.empty and rid = "JNum ''1''" and params = JNull]
    by simp
  ultimately show ?thesis by blast
qed

text \<open>
  Claim C8. Every \<open>tools/list\<close> is answered with a result whose \<open>tools\<close> array is the
  constant \<open>TOOLS\<close>: three entries, named \<open>ask\<close>, \<open>memory_search\<close> and \<open>sessions_status\<close> in
  that order, each with its input schema. The answer is the same whatever the parameters,
  the session table and the environment are; the SDK's handler returns the same array.
\<close>

theorem tools_list_static:
  "handleRequest cfg e ss (JStr ''tools/list'') params rid
     = (Resolved (JObj [(''jsonrpc'', JStr ''2.0''), (''id'', rid),
                        (''result'', JObj [(''tools'', JArr (TOOLS cfg))])]), ss, [])
   \<and> list_tools_sdk cfg = JObj [(''tools'', JArr (TOOLS cfg))]
   \<and> length (TOOLS cfg) = 3
   \<and> map (\<lambda>t. js_get t ''name'') (TOOLS cfg)
       = [JStr ''ask'', JStr ''memory_search'', JStr ''sessions_status'']
   \<and> map (\<lambda>t. js_get t ''inputSchema'') (TOOLS cfg)
       = [ask_schema cfg, memory_search_schema, sessions_status_schema]
   \<and> js_get (ask_schema cfg) ''required'' = JArr [JStr ''message'']
   \<and> js_get memory_search_schema ''required'' = JArr [JStr ''query'']
   \<and> js_get sessions_status_schema ''properties'' = JObj []
   \<and> fst (handleRequest cfg e' ss' (JStr ''tools/list'') params' rid)
       = fst (handleRequest cfg e ss (JStr ''tools/list'') params rid)"
  by (simp add: handleRequest_def list_tools_sdk_def TOOLS_def ask_schema_def
        memory_search_schema_def sessions_status_schema_def)

theorem tools_list_static_witness:
  "(\<exists>tools. post_handler sample_config sample_env Map.empty (rpc_body (JNum ''1'') ''tools/list'' JUndefined)
      = (Resolved (Http 200 (Some (JObj [(''jsonrpc'', JStr ''2.0''), (''id'', JNum ''1''),
                        (''result'', JObj [(''tools'', JArr tools)])]))), Map.empty, [])
      \<and> map (\<lambda>t. js_get t ''name'') tools
       = [JStr ''ask'', JStr ''memory_search'', JStr ''sessions_status''])"
  using tools_list_static [of sample_config sample_env Map.empty "JObj []" "JNum ''1''"]
  by (simp add: post_handler_def rpc_body_def Let_def js_or_def)

text \<open>
  Claim C10. A \<open>tools/call\<close> whose tool returns the empty string without throwing is
  answered with the text \<open>Success\<close>, not with an empty text, and without \<open>isError\<close>, in
  both transports. That is the case when the agent of \<open>ask\<close> or \<open>sessions_status\<close> closes
  with exit code 0 after printing nothing, or nothing but white space.
\<close>

theorem empty_output_success:
  "(call_tool cfg e (js_get params ''name'') (js_or (js_get params ''arguments'') (JObj []))
          = (Resolved [], calls)
     \<longrightarrow> handleRequest cfg e ss (JStr ''tools/call'') params rid
          = (Resolved (text_result rid ''Success''), ss, calls))
   \<and> (call_tool_sdk cfg e (js_get params ''name'') (js_get params ''arguments'')
          = (Resolved [], calls)
     \<longrightarrow> CallToolRequest_sdk cfg e params = (Resolved (text_content ''Success''), calls))
   \<and> (js_get params ''name'' = JStr ''ask''
      \<and> js_get (js_get params ''arguments'') ''message'' = JStr m \<and> m \<noteq> []
      \<and> spawn e ''openclaw'' (send_argv cfg m 120) = Inr (ds @ CloseEv (Some 0) # rest)
      \<and> list_all is_data ds \<and> trim (stdout_of ds) = []
     \<longrightarrow> fst (handleRequest cfg e ss (JStr ''tools/call'') params rid)
          = Resolved (text_result rid ''Success'')
        \<and> fst (CallToolRequest_sdk cfg e params) = Resolved (text_content ''Success''))
   \<and> (js_get params ''name'' = JStr ''sessions_status''
      \<and> spawn e ''openclaw'' list_argv = Inr (ds @ CloseEv (Some 0) # rest)
      \<and> list_all is_data ds \<and> trim (stdout_of ds) = []
     \<longrightarrow> fst (handleRequest cfg e ss (JStr ''tools/call'') params rid)
          = Resolved (text_result rid ''Success'')
        \<and> fst (CallToolRequest_sdk cfg e params) = Resolved (text_content ''Success''))"
proof -
  have general: "handleRequest cfg e ss (JStr ''tools/call'') params rid
          = (Resolved (text_result rid ''Success''), ss, calls)"
    if "call_tool cfg e (js_get params ''name'') (js_or (js_get params ''arguments'') (JObj []))
          = (Resolved [], calls)" for calls
    using known_tool_outcome [OF call_tool_resolved_known [OF that] that] by simp
  have general_sdk: "CallToolRequest_sdk cfg e params = (Resolved (text_content ''Success''), calls)"
    if "call_tool_sdk cfg e (js_get params ''name'') (js_get params ''arguments'')
          = (Resolved [], calls)" for calls
    using known_tool_sdk_outcome [OF call_tool_sdk_resolved_known [OF that] that] by simp
  have ask: "fst (handleRequest cfg e ss (JStr ''tools/call'') params rid)
          = Resolved (text_result rid ''Success'')
        \<and> fst (CallToolRequest_sdk cfg e params) = Resolved (text_content ''Success'')"
    if h: "js_get params ''name'' = JStr ''ask''"
      "js_get (js_get params ''arguments'') ''message'' = JStr m" "m \<noteq> []"
      "spawn e ''openclaw'' (send_argv cfg m 120) = Inr (ds @ CloseEv (Some 0) # rest)"
      "list_all is_data ds" "trim (stdout_of ds) = []"
  proof -
    have quiet: "openclaw e (send_argv cfg m 120) = Resolved []"
      using h(4,6) run_child_close [OF h(5), of "Some 0" rest] by (simp add: openclaw_def)
    have "call_tool cfg e (js_get params ''name'') (js_or (js_get params ''arguments'') (JObj []))
          = (Resolved [], [(''openclaw'', send_argv cfg m 120)])"
      using ask_call(1) [OF h(2,3)] h(1) quiet by simp
    moreover have "call_tool_sdk cfg e (js_get params ''name'') (js_get params ''arguments'')
          = (Resolved [], [(''openclaw'', send_argv cfg m 120)])"
      using ask_call(2) [OF h(2,3)] h(1) quiet by simp
    ultimately show ?thesis
      using general general_sdk h(1) by simp
  qed
  have status: "fst (handleRequest cfg e ss (JStr ''tools/call'') params rid)
          = Resolved (text_result rid ''Success'')
        \<and> fst (CallToolRequest_sdk cfg e params) = Resolved (text_content ''Success'')"
    if h: "js_get params ''name'' = JStr ''sessions_status''"
      "spawn e ''openclaw'' list_argv = Inr (ds @ CloseEv (Some 0) # rest)"
      "list_all is_data ds" "trim (stdout_of ds) = []"
  proof -
    have quiet: "openclaw e list_argv = Resolved []"
      using h(2,4) run_child_close [OF h(3), of "Some 0" rest] by (simp add: openclaw_def)
    have "call_tool cfg e (js_get params ''name'') (js_or (js_get params ''arguments'') (JObj []))
          = (Resolved [], [(''openclaw'', list_argv)])"
      using h(1) quiet by (simp add: call_tool_def listSessions_def)
    moreover have "call_tool_sdk cfg e (js_get params ''name'') (js_get params ''arguments'')
          = (Resolved [], [(''openclaw'', list_argv)])"
      using h(1) quiet by (simp add: call_tool_sdk_def listSessions_def)
    ultimately show ?thesis
      using general general_sdk h(1) by simp
  qed
  from general general_sdk ask status show ?thesis by blast
qed

theorem empty_output_success_witness:
  "handleRequest sample_config quiet_env Map.empty (JStr ''tools/call'')
       (call_params ''ask'' (JObj [(''message'', JStr ''are you there?'')])) (JNum ''5'')
     = (Resolved (text_result (JNum ''5'') ''Success''), Map.empty,
        [(''openclaw'', [''sessions'', ''send'', ''--label'', ''main'', ''--message'',
                          ''are you there?'', ''--timeout'', ''120''])])
   \<and> fst (CallToolRequest_sdk sample_config quiet_env (call_params ''sessions_status'' JUndefined))
     = Resolved (text_content ''Success'')"
proof -
  let ?ask = "call_params ''ask'' (JObj [(''message'', JStr ''are you there?'')])"
  let ?argv = "[''sessions'', ''send'', ''--label'', ''main'', ''--message'',
                 ''are you there?'', ''--timeout'', ''120'']"
  have tool: "call_tool sample_config quiet_env (js_get ?ask ''name'')
                (js_or (js_get ?ask ''arguments'') (JObj []))
              = (Resolved [], [(''openclaw'', ?argv)])"
    by code_simp
  note ask = empty_output_success [where params = ?ask and cfg = sample_config
      and e = quiet_env and ss = Map.empty and rid = "JNum ''5''"
      and calls = "[(''openclaw'', ?argv)]", THEN conjunct1, rule_format, OF tool]
  have "js_get (call_params ''sessions_status'' JUndefined) ''name'' = JStr ''sessions_status''
      \<and> spawn quiet_env ''openclaw'' list_argv = Inr ([StdoutData [LF]] @ CloseEv (Some 0) # [])
      \<and> list_all is_data [StdoutData [LF]] \<and> trim (stdout_of [StdoutData [LF]]) = []"
    by (simp add: call_params_def quiet_env_def trim_def is_space_def LF_def)
  from empty_output_success [where params = "call_params ''sessions_status'' JUndefined"
      and cfg = sample_config and e = quiet_env and ds = "[StdoutData [LF]]" and rest = "[]",
      THEN conjunct2, THEN conjunct2, THEN conjunct2, rule_format, OF this]
  have "fst (CallToolRequest_sdk sample_config quiet_env (call_params ''sessions_status'' JUndefined))
     = Resolved (text_content ''Success'')"
    by simp
  with ask show ?thesis by simp
qed

text \<open>
  Claim C5. A \<open>tools/call\<close> of \<open>ask\<close>. When \<open>arguments.message\<close> is missing or the empty
  string (or falsy in any other way) the result is the error block \<open>Error: Missing 'message'
  argument\<close> and nothing is spawned. When it is a non-empty string \<open>m\<close>, exactly one
  process is spawned, \<open>openclaw\<close> with the arguments \<open>sessions send --label <label>
  --message m' --timeout 120\<close>, \<open>m'\<close> being \<open>m\<close> with a backslash put before every double
  quote. If that process closes with an exit code other than 0 (or with none), the result is
  an error block that wraps the exit code and everything the process wrote to standard
  error; if it emits \<open>error\<close> first, the result is an error block that wraps the reason.
\<close>

theorem ask_invocation:
  assumes ask: "js_get params ''name'' = JStr ''ask''"
  shows "(\<not> truthy (js_get (js_get params ''arguments'') ''message'')
            \<longrightarrow> handleRequest cfg e ss (JStr ''tools/call'') params rid
                 = (Resolved (error_result rid missing_message), ss, []))
       \<and> \<not> truthy JUndefined \<and> \<not> truthy (JStr [])
       \<and> (js_get (js_get params ''arguments'') ''message'' = JStr m \<and> m \<noteq> []
            \<longrightarrow> snd (snd (handleRequest cfg e ss (JStr ''tools/call'') params rid))
                 = [(''openclaw'',
                     [''sessions'', ''send'', ''--label'', sessionLabel cfg,
                      ''--message'', escape_quotes m, ''--timeout'', ''120''])])
       \<and> (js_get (js_get params ''arguments'') ''message'' = JStr m \<and> m \<noteq> []
           \<and> spawn e ''openclaw''
                [''sessions'', ''send'', ''--label'', sessionLabel cfg,
                 ''--message'', escape_quotes m, ''--timeout'', ''120'']
               = Inr (ds @ CloseEv code # rest)
           \<and> list_all is_data ds \<and> code \<noteq> Some 0
            \<longrightarrow> fst (handleRequest cfg e ss (JStr ''tools/call'') params rid)
                 = Resolved (error_result rid
                     (''OpenClaw exited with code '' @ code_text code @ '': '' @ stderr_of ds)))
       \<and> (js_get (js_get params ''arguments'') ''message'' = JStr m \<and> m \<noteq> []
           \<and> spawn e ''openclaw''
                [''sessions'', ''send'', ''--label'', sessionLabel cfg,
                 ''--message'', escape_quotes m, ''--timeout'', ''120'']
               = Inr (ds @ ErrorEv reason # rest)
           \<and> list_all is_data ds
            \<longrightarrow> fst (handleRequest cfg e ss (JStr ''tools/call'') params rid)
                 = Resolved (error_result rid (''Failed to spawn openclaw: '' @ reason)))"
proof -
  let ?args = "js_get params ''arguments''"
  let ?argv = "[''sessions'', ''send'', ''--label'', sessionLabel cfg,
                ''--message'', escape_quotes m, ''--timeout'', ''120'']"
  have name: "js_get params ''name'' \<in> known_tools"
    using ask by (simp add: known_tools_def)
  have missing: "handleRequest cfg e ss (JStr ''tools/call'') params rid
                 = (Resolved (error_result rid missing_message), ss, [])"
    if "\<not> truthy (js_get ?args ''message'')"
    using known_tool_outcome [OF name, of cfg e "Rejected missing_message" "[]" ss rid]
      ask_no_message(1) [OF that, of cfg e] ask
    by simp
  have sent: "handleRequest cfg e ss (JStr ''tools/call'') params rid
                 = (case openclaw e ?argv of
                      Pending \<Rightarrow> Pending
                    | Resolved result \<Rightarrow>
                        Resolved (text_result rid (if result = [] then ''Success'' else result))
                    | Rejected message \<Rightarrow> Resolved (error_result rid message),
                    ss, [(''openclaw'', ?argv)])"
    if "js_get ?args ''message'' = JStr m" "m \<noteq> []"
    using known_tool_outcome [OF name, of cfg e "openclaw e ?argv" "[(''openclaw'', ?argv)]"
        ss rid]
      ask_call(1) [OF that, of cfg e] ask
    by (simp add: send_argv_120)
  have spawned: "snd (snd (handleRequest cfg e ss (JStr ''tools/call'') params rid))
                 = [(''openclaw'', ?argv)]"
    if "js_get ?args ''message'' = JStr m" "m \<noteq> []"
    using sent [OF that] by simp
  have exited: "fst (handleRequest cfg e ss (JStr ''tools/call'') params rid)
                 = Resolved (error_result rid
                     (''OpenClaw exited with code '' @ code_text code @ '': '' @ stderr_of ds))"
    if "js_get ?args ''message'' = JStr m" "m \<noteq> []"
      "spawn e ''openclaw'' ?argv = Inr (ds @ CloseEv code # rest)"
      "list_all is_data ds" "code \<noteq> Some 0"
    using sent [OF that(1,2)] that(3,5) run_child_close [OF that(4), of code rest]
    by (simp add: openclaw_def)
  have failed: "fst (handleRequest cfg e ss (JStr ''tools/call'') params rid)
                 = Resolved (error_result rid (''Failed to spawn openclaw: '' @ reason))"
    if "js_get ?args ''message'' = JStr m" "m \<noteq> []"
      "spawn e ''openclaw'' ?argv = Inr (ds @ ErrorEv reason # rest)"
      "list_all is_data ds"
    using sent [OF that(1,2)] that(3) run_child_error [OF that(4), of reason rest]
    by (simp add: openclaw_def)
  from missing spawned exited failed show ?thesis by simp
qed

theorem ask_invocation_witness:
  "handleRequest sample_config sample_env Map.empty (JStr ''tools/call'')
       (call_params ''ask'' (JObj [])) (JNum ''1'')
     = (Resolved (error_result (JNum ''1'') missing_message), Map.empty, [])
   \<and> handleRequest sample_config sample_env Map.empty (JStr ''tools/call'')
       (call_params ''ask'' (JObj [(''message'', JStr [])])) (JNum ''1'')
     = (Resolved (error_result (JNum ''1'') missing_message), Map.empty, [])
   \<and> snd (snd (handleRequest sample_config sample_env Map.empty (JStr ''tools/call'')
       (call_params ''ask'' (JObj [(''message'', JStr (''say '' @ [DQ] @ ''hi'' @ [DQ]))]))
       (JNum ''1'')))
     = [(''openclaw'',
         [''sessions'', ''send'', ''--label'', ''main'',
          ''--message'', ''say '' @ [BSL, DQ] @ ''hi'' @ [BSL, DQ], ''--timeout'', ''120''])]
   \<and> fst (handleRequest sample_config failing_env Map.empty (JStr ''tools/call'')
       (call_params ''ask'' (JObj [(''message'', JStr ''hello'')])) (JNum ''1''))
     = Resolved (error_result (JNum ''1'') ''OpenClaw exited with code 2: no such session'')
   \<and> fst (handleRequest sample_config missing_env Map.empty (JStr ''tools/call'')
       (call_params ''ask'' (JObj [(''message'', JStr ''hello'')])) (JNum ''1''))
     = Resolved (error_result (JNum ''1'') ''Failed to spawn openclaw: spawn openclaw ENOENT'')"
proof -
  have name: "js_get (call_params ''ask'' args) ''name'' = JStr ''ask''" for args
    by (simp add: call_params_def)
  have two: "code_text (Some 2) = ''2''"
    by code_simp
  have "handleRequest sample_config sample_env Map.empty (JStr ''tools/call'')
       (call_params ''ask'' (JObj [])) (JNum ''1'')
     = (Resolved (error_result (JNum ''1'') missing_message), Map.empty, [])"
    using ask_invocation [OF name [of "JObj []"],
        where cfg = sample_config
        and e = sample_env and ss = Map.empty and rid = "JNum ''1''", THEN conjunct1]
    by (simp add: call_params_def)
  moreover have "handleRequest sample_config sample_env Map.empty (JStr ''tools/call'')
       (call_params ''ask'' (JObj [(''message'', JStr [])])) (JNum ''1'')
     = (Resolved (error_result (JNum ''1'') missing_message), Map.empty, [])"
    using ask_invocation [OF name [of "JObj [(''message'', JStr [])]"],
        where cfg = sample_config
        and e = sample_env and ss = Map.empty and rid = "JNum ''1''",
        THEN conjunct1]
    by (simp add: call_params_def)
  moreover have "snd (snd (handleRequest sample_config sample_env Map.empty (JStr ''tools/call'')
       (call_params ''ask'' (JObj [(''message'', JStr (''say '' @ [DQ] @ ''hi'' @ [DQ]))]))
       (JNum ''1'')))
     = [(''openclaw'',
         [''sessions'', ''send'', ''--label'', ''main'',
          ''--message'', ''say '' @ [BSL, DQ] @ ''hi'' @ [BSL, DQ], ''--timeout'', ''120''])]"
    using ask_invocation [OF name [of "JObj [(''message'', JStr (''say '' @ [DQ] @ ''hi'' @ [DQ]))]"],
        where m = "''say '' @ [DQ] @ ''hi'' @ [DQ]"
        and cfg = sample_config and e = sample_env and ss = Map.empty and rid = "JNum ''1''"]
    by (simp add: call_params_def sample_config_def DQ_def BSL_def)
  moreover have "fst (handleRequest sample_config failing_env Map.empty (JStr ''tools/call'')
       (call_params ''ask'' (JObj [(''message'', JStr ''hello'')])) (JNum ''1''))
     = Resolved (error_result (JNum ''1'') ''OpenClaw exited with code 2: no such session'')"
    using ask_invocation [OF name [of "JObj [(''message'', JStr ''hello'')]"],
        where m = "''hello''" and cfg = sample_config
        and e = failing_env and ss = Map.empty
        and rid = "JNum ''1''" and code = "Some 2" and rest = "[]"
        and ds = "[StderrData ''no such '', StderrData ''session'']"]
    by (simp add: call_params_def failing_env_def two DQ_def)
  moreover have "fst (handleRequest sample_config missing_env Map.empty (JStr ''tools/call'')
       (call_params ''ask'' (JObj [(''message'', JStr ''hello'')])) (JNum ''1''))
     = Resolved (error_result (JNum ''1'') ''Failed to spawn openclaw: spawn openclaw ENOENT'')"
    using ask_invocation [OF name [of "JObj [(''message'', JStr ''hello'')]"],
        where m = "''hello''" and cfg = sample_config
        and e = missing_env and ss = Map.empty
        and rid = "JNum ''1''" and reason = "''spawn openclaw ENOENT''"
        and rest = "[CloseEv (Some (- 2))]" and ds = "[]"]
    by (simp add: call_params_def missing_env_def DQ_def)
  ultimately show ?thesis by blast
qed



text \<open>
  Claim C6. Whatever envelope the dispatcher returns carries the \<open>id\<close> it was called
  with. It returns one for \<open>tools/list\<close>, \<open>ping\<close> and every unknown method that prints, for
  \<open>initialize\<close> with parameters other than \<open>undefined\<close> and \<open>null\<close>, and for \<open>tools/call\<close>
  once the log line has printed and the tool's promise has settled, error blocks included;
  elsewhere it throws or never returns, and there is no envelope of its own. Every body the
  POST handler sends after dispatching carries the request's \<open>id\<close> too (status 200, or 500
  when the dispatcher threw), and for a body of version 2.0 whose method and \<open>id\<close> print it
  does send one with status 200, the method being neither \<open>initialized\<close> nor \<open>tools/call\<close>.
  For \<open>initialized\<close> the dispatcher returns \<open>null\<close>, no envelope, and the POST handler
  answers 202 without a body.
\<close>

theorem identifier_echoed:
  "(fst (handleRequest cfg e ss method params rid) = Resolved resp \<and> resp \<noteq> JNull
      \<longrightarrow> js_get resp ''id'' = rid)
   \<and> (ToString method \<noteq> None \<and> method \<noteq> JStr ''initialize''
       \<and> method \<noteq> JStr ''initialized'' \<and> method \<noteq> JStr ''tools/call''
      \<longrightarrow> (\<exists>r. fst (handleRequest cfg e ss method params rid) = Resolved r
             \<and> r \<noteq> JNull \<and> js_get r ''id'' = rid))
   \<and> (\<not> nullish params
      \<longrightarrow> (\<exists>r. fst (handleRequest cfg e ss (JStr ''initialize'') params rid) = Resolved r
             \<and> r \<noteq> JNull \<and> js_get r ''id'' = rid))
   \<and> (\<not> nullish params \<and> ToString (js_get params ''name'') = Some n
       \<and> \<not> log_throws (''[MCP] Calling tool: '' @ n)
              (js_or (js_get params ''arguments'') (JObj []))
       \<and> fst (call_tool cfg e (js_get params ''name'')
                 (js_or (js_get params ''arguments'') (JObj []))) \<noteq> Pending
      \<longrightarrow> (\<exists>r. fst (handleRequest cfg e ss (JStr ''tools/call'') params rid) = Resolved r
             \<and> r \<noteq> JNull \<and> js_get r ''id'' = rid))
   \<and> (fst (post_handler cfg e ss reqBody) = Resolved (Http status (Some sent)) \<and> status \<noteq> 400
      \<longrightarrow> js_get sent ''id'' = js_get reqBody ''id'')
   \<and> (js_get reqBody ''jsonrpc'' = JStr ''2.0''
       \<and> ToString (js_get reqBody ''method'') \<noteq> None
       \<and> ToString (js_get reqBody ''id'') \<noteq> None
       \<and> js_get reqBody ''method'' \<noteq> JStr ''initialized''
       \<and> js_get reqBody ''method'' \<noteq> JStr ''tools/call''
      \<longrightarrow> (\<exists>answer ss'. post_handler cfg e ss reqBody
                = (Resolved (Http 200 (Some answer)), ss', [])
             \<and> js_get answer ''id'' = js_get reqBody ''id''))
   \<and> handleRequest cfg e ss (JStr ''initialized'') params rid = (Resolved JNull, ss, [])
   \<and> (js_get reqBody ''jsonrpc'' = JStr ''2.0''
       \<and> js_get reqBody ''method'' = JStr ''initialized''
       \<and> ToString (js_get reqBody ''id'') \<noteq> None
      \<longrightarrow> post_handler cfg e ss reqBody = (Resolved (Http 202 None), ss, []))"
proof -
  have "handleRequest cfg e ss (JStr ''initialized'') params rid = (Resolved JNull, ss, [])"
    by (simp add: handleRequest_def)
  with handleRequest_id [of cfg e ss "method" params rid resp]
    handleRequest_answers [of "method" cfg e ss params rid]
    initialize_answers [of params cfg e ss rid]
    tools_call_answers [of params n cfg e ss rid]
    post_handler_id [of cfg e ss reqBody status sent]
    post_handler_answers [of reqBody cfg e ss]
    initialized_acknowledged [of reqBody cfg e ss]
  show ?thesis by blast
qed

theorem identifier_echoed_witness:
  "(\<exists>r. fst (handleRequest sample_config sample_env Map.empty (JStr ''ping'') JUndefined
            (JStr ''abc-1'')) = Resolved r
        \<and> r \<noteq> JNull \<and> js_get r ''id'' = JStr ''abc-1'')
   \<and> (\<exists>r. fst (handleRequest sample_config sample_env Map.empty (JStr ''tools/call'')
            (call_params ''ask'' (JObj [])) (JNum ''42'')) = Resolved r
        \<and> r \<noteq> JNull \<and> js_get r ''id'' = JNum ''42'')
   \<and> (\<exists>answer ss'. post_handler sample_config sample_env Map.empty
            (JObj [(''jsonrpc'', JStr ''2.0''), (''id'', JStr ''i-7''),
                   (''method'', JStr ''initialize'')])
          = (Resolved (Http 200 (Some answer)), ss', [])
        \<and> js_get answer ''id'' = JStr ''i-7'')
   \<and> post_handler sample_config sample_env Map.empty
        (JObj [(''jsonrpc'', JStr ''2.0''), (''method'', JStr ''initialized'')])
       = (Resolved (Http 202 None), Map.empty, [])"
proof -
  have "\<exists>r. fst (handleRequest sample_config sample_env Map.empty (JStr ''ping'') JUndefined
            (JStr ''abc-1'')) = Resolved r
        \<and> r \<noteq> JNull \<and> js_get r ''id'' = JStr ''abc-1''"
    using identifier_echoed [of sample_config sample_env Map.empty "JStr ''ping''" JUndefined
        "JStr ''abc-1''"]
    by simp
  moreover have "\<exists>r. fst (handleRequest sample_config sample_env Map.empty (JStr ''tools/call'')
            (call_params ''ask'' (JObj [])) (JNum ''42'')) = Resolved r
        \<and> r \<noteq> JNull \<and> js_get r ''id'' = JNum ''42''"
  proof -
    let ?params = "call_params ''ask'' (JObj [])"
    have "\<not> nullish ?params \<and> ToString (js_get ?params ''name'') = Some ''ask''
       \<and> \<not> log_throws (''[MCP] Calling tool: '' @ ''ask'')
              (js_or (js_get ?params ''arguments'') (JObj []))
       \<and> fst (call_tool sample_config sample_env (js_get ?params ''name'')
                 (js_or (js_get ?params ''arguments'') (JObj []))) \<noteq> Pending"
      by (simp add: call_params_def call_tool_def js_or_def log_throws_def)
    with identifier_echoed [where cfg = sample_config and e = sample_env and ss = Map.empty
        and params = ?params and n = "''ask''" and rid = "JNum ''42''"]
    show ?thesis by blast
  qed
  moreover have "\<exists>answer ss'. post_handler sample_config sample_env Map.empty
            (JObj [(''jsonrpc'', JStr ''2.0''), (''id'', JStr ''i-7''),
                   (''method'', JStr ''initialize'')])
          = (Resolved (Http 200 (Some answer)), ss', [])
        \<and> js_get answer ''id'' = JStr ''i-7''"
    using identifier_echoed [where cfg = sample_config and e = sample_env and ss = Map.empty
        and reqBody = "JObj [(''jsonrpc'', JStr ''2.0''), (''id'', JStr ''i-7''),
                             (''method'', JStr ''initialize'')]"]
    by simp
  moreover have "post_handler sample_config sample_env Map.empty
        (JObj [(''jsonrpc'', JStr ''2.0''), (''method'', JStr ''initialized'')])
       = (Resolved (Http 202 None), Map.empty, [])"
    using identifier_echoed [where cfg = sample_config and e = sample_env and ss = Map.empty
        and reqBody = "JObj [(''jsonrpc'', JStr ''2.0''), (''method'', JStr ''initialized'')]"]
    by simp
  ultimately show ?thesis by blast
qed

text \<open>
  Claim C4. A body whose \<open>jsonrpc\<close> is not the string 2.0 is answered with status 400 and a
  JSON-RPC error of code -32600, the dispatcher never being called, provided the log line
  before the check can print \<open>method\<close> and \<open>id\<close> (lemma \<open>post_handler_invalid_version\<close>).
  It cannot print an \<open>id\<close> that is an object with a member of its own called \<open>toString\<close>:
  for the body \<open>{"jsonrpc": "1.0", "id": {"toString": 1}}\<close>, sent with the right bearer
  token, the handler throws a TypeError before it looks at \<open>jsonrpc\<close>, and no error of code
  -32600 is sent.
\<close>

theorem invalid_version_unprintable_id:
  "post_mcp sample_config sample_env Map.empty
     \<lparr>authorization = Some ''Bearer s3cret'',
      body = JObj [(''jsonrpc'', JStr ''1.0''), (''id'', JObj [(''toString'', JNum ''1'')])]\<rparr>
     = (Rejected cannot_convert, Map.empty, [])"
  by (simp add: post_mcp_def authenticate_def sample_config_def startsWith_def substring_def
        post_handler_def Let_def)

end
